theory Spec2Isabelle
  imports Complex_Main "HOL-Library.Char_ord" "HOL-Library.List_Lexorder" "HOL-Library.Multiset"
begin

section \<open>The check-in scheduler (hook \<open>useBurnoutTimer\<close>)\<close>

text \<open>
  \<^verbatim>\<open>calculateNextInterval(score)\<close> of the burnout timer hook. A JavaScript number is
  modelled as a real, \<^verbatim>\<open>Math.exp\<close> as \<^const>\<open>exp\<close> and \<^verbatim>\<open>Math.round\<close> (nearest integer,
  ties towards plus infinity) as \<^const>\<open>round\<close>, which is \<open>\<lfloor>x + 1/2\<rfloor>\<close>.
  The function body has three constants, the logistic ratio, the interpolation and the
  final rounding; nothing in it inspects or restricts \<open>score\<close>.
\<close>

definition MIN_INTERVAL_MIN :: real where
  "MIN_INTERVAL_MIN = 30"

definition MAX_INTERVAL_MIN :: real where
  "MAX_INTERVAL_MIN = 4 * 60"

definition LOGISTIC_STEEPNESS :: real where
  "LOGISTIC_STEEPNESS = 4.0"

definition interval_ratio :: "real \<Rightarrow> real" where
  "interval_ratio score = 1.0 / (1.0 + exp (- LOGISTIC_STEEPNESS * (score / 100 - 0.5)))"

definition interval_minutes :: "real \<Rightarrow> real" where
  "interval_minutes score =
     MIN_INTERVAL_MIN + (MAX_INTERVAL_MIN - MIN_INTERVAL_MIN) * (1.0 - interval_ratio score)"

definition calculateNextInterval :: "real \<Rightarrow> int" where
  "calculateNextInterval score = round (interval_minutes score)"

section \<open>Strings\<close>

text \<open>
  A JavaScript string is modelled as a list of 8-bit characters, read as the code units
  U+0000 to U+00FF. Symbols of the source's message templates that lie outside this range
  are written as their UTF-8 bytes; no handler reads them again.

  \<^verbatim>\<open>String.prototype.trim\<close> and the regular-expression class \<^verbatim>\<open>\s\<close> remove the same
  characters: tab, line feed, vertical tab, form feed, carriage return, space and the
  no-break space.
\<close>

definition isWhiteSpace :: "char \<Rightarrow> bool" where
  "isWhiteSpace c = (of_char c \<in> {9, 10, 11, 12, 13, 32, 160 :: nat})"

definition trim :: "string \<Rightarrow> string" where
  "trim s = rev (dropWhile isWhiteSpace (rev (dropWhile isWhiteSpace s)))"

definition toLowerCaseChar :: "char \<Rightarrow> char" where
  "toLowerCaseChar c =
     (let n = of_char c :: nat
      in if (65 \<le> n \<and> n \<le> 90) \<or> (192 \<le> n \<and> n \<le> 222 \<and> n \<noteq> 215)
         then char_of (n + 32) else c)"

definition toLowerCase :: "string \<Rightarrow> string" where
  "toLowerCase s = map toLowerCaseChar s"

definition startsWith :: "string \<Rightarrow> string \<Rightarrow> bool" where
  "startsWith m s = (take (length m) s = m)"

definition newline :: char where
  "newline = CHR 0x0A"

definition CHECK_MARK :: string where
  "CHECK_MARK = [CHR 0xE2, CHR 0x9C, CHR 0x85]"

definition EM_DASH :: string where
  "EM_DASH = [CHR 0xE2, CHR 0x80, CHR 0x94]"

text \<open>Template interpolation of a non-negative integer: its decimal digits.\<close>

fun showNat :: "nat \<Rightarrow> string" where
  "showNat n =
     (if n < 10 then [''0123456789'' ! n]
      else showNat (n div 10) @ [''0123456789'' ! (n mod 10)])"

declare showNat.simps [simp del]

section \<open>Lexical classification of chat input\<close>

text \<open>
  \<^verbatim>\<open>/\b(plan|schedule|add|block|book|insert)\b/i.test(s)\<close>: an unanchored search for one
  of six words between two word boundaries. Without the \<^verbatim>\<open>u\<close> flag the \<^verbatim>\<open>i\<close> flag folds
  only the ASCII letters onto the letters of the pattern; \<^verbatim>\<open>\w\<close> is \<^verbatim>\<open>[A-Za-z0-9_]\<close>.
\<close>

definition schedulingKeywords :: "string list" where
  "schedulingKeywords = [''plan'', ''schedule'', ''add'', ''block'', ''book'', ''insert'']"

definition foldAscii :: "char \<Rightarrow> char" where
  "foldAscii c = (let n = of_char c :: nat in if 65 \<le> n \<and> n \<le> 90 then char_of (n + 32) else c)"

definition isWordChar :: "char \<Rightarrow> bool" where
  "isWordChar c =
     (let n = of_char c :: nat
      in (48 \<le> n \<and> n \<le> 57) \<or> (65 \<le> n \<and> n \<le> 90) \<or> n = 95 \<or> (97 \<le> n \<and> n \<le> 122))"

definition charAt :: "string \<Rightarrow> nat \<Rightarrow> char option" where
  "charAt s i = (if i < length s then Some (s ! i) else None)"

definition isWordBoundary :: "char option \<Rightarrow> char option \<Rightarrow> bool" where
  "isWordBoundary a b =
     ((case a of None \<Rightarrow> False | Some c \<Rightarrow> isWordChar c) \<noteq>
      (case b of None \<Rightarrow> False | Some c \<Rightarrow> isWordChar c))"

text \<open>The pattern matched at the head of \<open>s\<close>, the character before it being \<open>prev\<close>.\<close>

definition keywordHere :: "char option \<Rightarrow> string \<Rightarrow> string \<Rightarrow> bool" where
  "keywordHere prev s w =
     (isWordBoundary prev (charAt s 0) \<and>
      map foldAscii (take (length w) s) = w \<and>
      isWordBoundary (charAt s (length w - 1)) (charAt s (length w)))"

fun searchKeyword :: "char option \<Rightarrow> string \<Rightarrow> bool" where
  "searchKeyword prev [] = False"
| "searchKeyword prev (c # cs) =
     ((\<exists>w \<in> set schedulingKeywords. keywordHere prev (c # cs) w) \<or> searchKeyword (Some c) cs)"

definition wantsSchedulingIntent :: "string \<Rightarrow> bool" where
  "wantsSchedulingIntent s = searchKeyword None s"

text \<open>
  The two consent patterns \<^verbatim>\<open>/^(y|yes|approve|ok|okay|sure)$/\<close> and
  \<^verbatim>\<open>/^(n|no|cancel|skip)$/\<close>, tested on the lower-cased text: anchored at both ends, so
  the whole text is one of the alternatives.
\<close>

definition affirmativeReplies :: "string list" where
  "affirmativeReplies = [''y'', ''yes'', ''approve'', ''ok'', ''okay'', ''sure'']"

definition negativeReplies :: "string list" where
  "negativeReplies = [''n'', ''no'', ''cancel'', ''skip'']"

definition isAffirmative :: "string \<Rightarrow> bool" where
  "isAffirmative s = (s \<in> set affirmativeReplies)"

definition isNegative :: "string \<Rightarrow> bool" where
  "isNegative s = (s \<in> set negativeReplies)"

section \<open>Proposals and the JavaScript runtime\<close>

record proposal =
  p_type :: string
  summary :: string
  start :: string
  p_end :: string
  reason :: "string option"

text \<open>\<^verbatim>\<open>{...proposal, dayLabel}\<close>: a proposal with the label of its day.\<close>

record day_proposal = proposal +
  dayLabel :: string

text \<open>
  What \<^verbatim>\<open>JSON.parse\<close> makes of the captured payload text: a syntax error, or an object
  whose \<^verbatim>\<open>proposals\<close> field is missing or falsy (\<open>None\<close>) or is an array of proposals.
\<close>

datatype parsed_payload = SyntaxError | Payload "proposal list option"

text \<open>
  The built-ins of the runtime that the code calls and that depend on the machine it runs
  on: the offset of local time from UTC in minutes, \<^verbatim>\<open>Date.parse\<close> on the strings that are
  not of the ISO local form below (milliseconds since the epoch, \<open>None\<close> for an invalid
  date), the two locale formatters, \<^verbatim>\<open>JSON.parse\<close> and the clock \<^verbatim>\<open>Date.now()\<close>.
\<close>

record js_env =
  tzOffsetMinutes :: int
  parseOtherDate :: "string \<Rightarrow> int option"
  toLocaleDateString :: "string \<Rightarrow> string"
  toLocaleTimeString :: "string \<Rightarrow> string"
  jsonParse :: "string \<Rightarrow> parsed_payload"
  dateNow :: real

datatype js_error = RangeError

subsection \<open>\<^verbatim>\<open>new Date(s).toISOString().split('T')[0]\<close>\<close>

text \<open>
  ECMAScript reads a date-time string without an offset (\<^verbatim>\<open>YYYY-MM-DDTHH:mm\<close>) as local
  time; \<^verbatim>\<open>toISOString\<close> prints the same instant in UTC and raises a \<^verbatim>\<open>RangeError\<close> on an
  invalid date. Days are counted from 1970-01-01 in the proleptic Gregorian calendar; the
  year of the day count starts in March, which puts the leap day at its end.
\<close>

definition digitValue :: "char \<Rightarrow> nat option" where
  "digitValue c = (let n = of_char c :: nat in if 48 \<le> n \<and> n \<le> 57 then Some (n - 48) else None)"

fun digitsValue :: "nat \<Rightarrow> string \<Rightarrow> nat option" where
  "digitsValue acc [] = Some acc"
| "digitsValue acc (c # cs) =
     (case digitValue c of None \<Rightarrow> None | Some d \<Rightarrow> digitsValue (10 * acc + d) cs)"

definition isLeapYear :: "int \<Rightarrow> bool" where
  "isLeapYear y = (y mod 4 = 0 \<and> (y mod 100 \<noteq> 0 \<or> y mod 400 = 0))"

definition daysInMonth :: "int \<Rightarrow> int \<Rightarrow> int" where
  "daysInMonth y m =
     (if m = 2 then (if isLeapYear y then 29 else 28)
      else if m = 4 \<or> m = 6 \<or> m = 9 \<or> m = 11 then 30 else 31)"

text \<open>
  The day number of a civil date and back. Each step is a function of its own, so that an
  intermediate value is computed once.
\<close>

definition dayOfYear :: "int \<Rightarrow> int \<Rightarrow> int" where
  "dayOfYear m d = (153 * (if m > 2 then m - 3 else m + 9) + 2) div 5 + d - 1"

definition dayOfEra :: "int \<Rightarrow> int \<Rightarrow> int" where
  "dayOfEra yoe doy = yoe * 365 + yoe div 4 - yoe div 100 + doy"

definition daysOfShiftedYear :: "int \<Rightarrow> int \<Rightarrow> int \<Rightarrow> int" where
  "daysOfShiftedYear y m d =
     (y div 400) * 146097 + dayOfEra (y mod 400) (dayOfYear m d) - 719468"

definition daysFromCivil :: "int \<Rightarrow> int \<Rightarrow> int \<Rightarrow> int" where
  "daysFromCivil y m d = daysOfShiftedYear (if m \<le> 2 then y - 1 else y) m d"

definition yearOfEra :: "int \<Rightarrow> int" where
  "yearOfEra doe = (doe - doe div 1460 + doe div 36524 - doe div 146096) div 365"

definition civilOfMonthIndex :: "int \<Rightarrow> int \<Rightarrow> int \<Rightarrow> int \<times> int \<times> int" where
  "civilOfMonthIndex y doy mp =
     (if mp < 10 then (y, mp + 3, doy - (153 * mp + 2) div 5 + 1)
      else (y + 1, mp - 9, doy - (153 * mp + 2) div 5 + 1))"

definition civilOfDayOfYear :: "int \<Rightarrow> int \<Rightarrow> int \<times> int \<times> int" where
  "civilOfDayOfYear y doy = civilOfMonthIndex y doy ((5 * doy + 2) div 153)"

definition civilOfYearOfEra :: "int \<Rightarrow> int \<Rightarrow> int \<Rightarrow> int \<times> int \<times> int" where
  "civilOfYearOfEra era doe yoe =
     civilOfDayOfYear (yoe + era * 400) (doe - (365 * yoe + yoe div 4 - yoe div 100))"

definition civilOfEra :: "int \<Rightarrow> int \<Rightarrow> int \<times> int \<times> int" where
  "civilOfEra era doe = civilOfYearOfEra era doe (yearOfEra doe)"

definition civilFromDays :: "int \<Rightarrow> int \<times> int \<times> int" where
  "civilFromDays z = civilOfEra ((z + 719468) div 146097) ((z + 719468) mod 146097)"

text \<open>The five numbers of a well-formed \<^verbatim>\<open>YYYY-MM-DDTHH:mm\<close>, each within its range.\<close>

definition parseIsoLocal :: "string \<Rightarrow> (int \<times> int \<times> int \<times> int \<times> int) option" where
  "parseIsoLocal s =
     (if length s = 16 \<and> s ! 4 = CHR ''-'' \<and> s ! 7 = CHR ''-'' \<and> s ! 10 = CHR ''T''
         \<and> s ! 13 = CHR '':''
      then (case (digitsValue 0 (take 4 s), digitsValue 0 (take 2 (drop 5 s)),
                  digitsValue 0 (take 2 (drop 8 s)), digitsValue 0 (take 2 (drop 11 s)),
                  digitsValue 0 (take 2 (drop 14 s))) of
              (Some y, Some m, Some d, Some h, Some mi) \<Rightarrow>
                 if 1 \<le> m \<and> m \<le> 12 \<and> 1 \<le> d \<and> int d \<le> daysInMonth (int y) (int m)
                    \<and> h \<le> 23 \<and> mi \<le> 59
                 then Some (int y, int m, int d, int h, int mi) else None
            | _ \<Rightarrow> None)
      else None)"

definition parseDate :: "js_env \<Rightarrow> string \<Rightarrow> int option" where
  "parseDate rt s =
     (case parseIsoLocal s of
        Some (y, m, d, h, mi) \<Rightarrow>
          Some (((daysFromCivil y m d * 1440 + h * 60 + mi) - tzOffsetMinutes rt) * 60000)
      | None \<Rightarrow> parseOtherDate rt s)"

definition padLeft :: "nat \<Rightarrow> string \<Rightarrow> string" where
  "padLeft n s = replicate (n - length s) (CHR ''0'') @ s"

definition isoYear :: "int \<Rightarrow> string" where
  "isoYear y =
     (if 0 \<le> y \<and> y \<le> 9999 then padLeft 4 (showNat (nat y))
      else (if y < 0 then ''-'' else ''+'') @ padLeft 6 (showNat (nat \<bar>y\<bar>)))"

definition isoDatePart :: "int \<Rightarrow> string" where
  "isoDatePart ms =
     (case civilFromDays (ms div 86400000) of
        (y, m, d) \<Rightarrow> isoYear y @ ''-'' @ padLeft 2 (showNat (nat m)) @ ''-'' @ padLeft 2 (showNat (nat d)))"

definition dayKeyOf :: "js_env \<Rightarrow> string \<Rightarrow> js_error + string" where
  "dayKeyOf rt s = (case parseDate rt s of None \<Rightarrow> Inl RangeError | Some ms \<Rightarrow> Inr (isoDatePart ms))"

section \<open>Grouping and formatting proposals\<close>

text \<open>
  \<^verbatim>\<open>groupProposalsByDay\<close> fills an object whose keys are day keys; an object lists its
  string keys in the order of their first insertion, so the object is an association list in
  that order. \<open>pushToGroup\<close> is \<^verbatim>\<open>if (!grouped[dayKey]) grouped[dayKey] = []\<close> followed by
  \<^verbatim>\<open>grouped[dayKey].push(...)\<close>. The day key is computed before the label, so an invalid
  start date ends the loop with the \<^verbatim>\<open>RangeError\<close> of \<^verbatim>\<open>toISOString\<close>.
\<close>

type_synonym day_groups = "(string \<times> day_proposal list) list"

definition withDayLabel :: "proposal \<Rightarrow> string \<Rightarrow> day_proposal" where
  "withDayLabel p l =
     \<lparr>p_type = p_type p, summary = summary p, start = start p, p_end = p_end p,
      reason = reason p, dayLabel = l\<rparr>"

definition labelProposal :: "js_env \<Rightarrow> proposal \<Rightarrow> day_proposal" where
  "labelProposal rt p = withDayLabel p (toLocaleDateString rt (start p))"

fun pushToGroup :: "string \<Rightarrow> day_proposal \<Rightarrow> day_groups \<Rightarrow> day_groups" where
  "pushToGroup k p [] = [(k, [p])]"
| "pushToGroup k p ((k', ps) # g) =
     (if k = k' then (k', ps @ [p]) # g else (k', ps) # pushToGroup k p g)"

fun groupLoop :: "js_env \<Rightarrow> proposal list \<Rightarrow> day_groups \<Rightarrow> js_error + day_groups" where
  "groupLoop rt [] grouped = Inr grouped"
| "groupLoop rt (p # ps) grouped =
     (case dayKeyOf rt (start p) of
        Inl e \<Rightarrow> Inl e
      | Inr dayKey \<Rightarrow>
          groupLoop rt ps (pushToGroup dayKey (labelProposal rt p) grouped))"

definition groupProposalsByDay :: "js_env \<Rightarrow> proposal list \<Rightarrow> js_error + day_groups" where
  "groupProposalsByDay rt proposals = groupLoop rt proposals []"

text \<open>
  \<^verbatim>\<open>Object.keys(grouped).sort()\<close>: the default sort compares strings by code units, which
  is the lexicographic order on character lists. \<^verbatim>\<open>grouped[key]\<close> is the lookup; the code
  only applies it to keys of the object, and the empty list stands for the \<^verbatim>\<open>undefined\<close>
  of a key that is not one.
\<close>

definition sortedDayKeys :: "day_groups \<Rightarrow> string list" where
  "sortedDayKeys grouped = sort (map fst grouped)"

definition groupAt :: "day_groups \<Rightarrow> string \<Rightarrow> day_proposal list" where
  "groupAt grouped k = (case map_of grouped k of None \<Rightarrow> [] | Some ps \<Rightarrow> ps)"

fun joinWith :: "string \<Rightarrow> string list \<Rightarrow> string" where
  "joinWith sep [] = []"
| "joinWith sep [x] = x"
| "joinWith sep (x # y # ys) = x @ sep @ joinWith sep (y # ys)"

definition formatActivity :: "js_env \<Rightarrow> day_proposal \<Rightarrow> string" where
  "formatActivity rt p =
     ''- '' @ summary p @ '' ('' @ toLocaleTimeString rt (start p) @ ''-''
       @ toLocaleTimeString rt (p_end p) @ '')''
       @ (case reason p of
            None \<Rightarrow> []
          | Some r \<Rightarrow> if r \<noteq> [] then '' - '' @ r else [])"

definition formatDayProposals :: "js_env \<Rightarrow> day_proposal list \<Rightarrow> string" where
  "formatDayProposals rt dayProposals =
     (case dayProposals of
        [] \<Rightarrow> []
      | p # _ \<Rightarrow>
          ''**'' @ dayLabel p @ '':**'' @ [newline]
            @ joinWith [newline] (map (formatActivity rt) dayProposals))"

definition dayPrompt :: "js_env \<Rightarrow> day_proposal list \<Rightarrow> string" where
  "dayPrompt rt dayProposals =
     formatDayProposals rt dayProposals @ [newline, newline]
       @ ''Approve activities for this day? (yes/no)''"

section \<open>Parsing the planner's raw text\<close>

text \<open>
  \<^verbatim>\<open>raw_text.match(/^(.*?)(?=<response>)/s)\<close>: the shortest prefix that is followed by the
  marker, that is the text before the first \<^verbatim>\<open><response>\<close>; no match without the marker.
\<close>

fun textBefore :: "string \<Rightarrow> string \<Rightarrow> string option" where
  "textBefore m [] = (if m = [] then Some [] else None)"
| "textBefore m (c # cs) =
     (if startsWith m (c # cs) then Some [] else map_option ((#) c) (textBefore m cs))"

text \<open>
  \<^verbatim>\<open>raw_text.match(/<payload>\s*(\{.*?\})\s*<\/payload>/s)\<close>. The lazy \<^verbatim>\<open>.*?\<close> stops at
  the first closing brace after which only white space separates it from the end tag;
  \<^verbatim>\<open>\s*\<close> can only succeed by taking all the white space, since the next pattern
  character is not white space. The search takes the leftmost start tag that matches.
\<close>

fun closingBrace :: "string \<Rightarrow> string option" where
  "closingBrace [] = None"
| "closingBrace (c # cs) =
     (if c = CHR ''}'' \<and> startsWith ''</payload>'' (dropWhile isWhiteSpace cs) then Some [c]
      else map_option ((#) c) (closingBrace cs))"

definition payloadHere :: "string \<Rightarrow> string option" where
  "payloadHere s =
     (if startsWith ''<payload>'' s
      then (case dropWhile isWhiteSpace (drop (length ''<payload>'') s) of
              [] \<Rightarrow> None
            | c # cs \<Rightarrow> if c = CHR ''{'' then map_option ((#) c) (closingBrace cs) else None)
      else None)"

fun payloadMatch :: "string \<Rightarrow> string option" where
  "payloadMatch [] = None"
| "payloadMatch (c # cs) =
     (case payloadHere (c # cs) of Some p \<Rightarrow> Some p | None \<Rightarrow> payloadMatch cs)"

text \<open>
  The second half of \<^verbatim>\<open>planWithManager\<close>: both variables start empty; nothing is extracted
  when \<^verbatim>\<open>data.raw_text\<close> is missing or empty; the \<^verbatim>\<open>catch\<close> around \<^verbatim>\<open>JSON.parse\<close> only logs.
\<close>

record parsed_plan =
  allProposals :: "proposal list"
  detailedAnalysis :: string

definition extractAnalysis :: "string \<Rightarrow> string" where
  "extractAnalysis raw = (case textBefore ''<response>'' raw of None \<Rightarrow> [] | Some a \<Rightarrow> trim a)"

definition extractProposals :: "js_env \<Rightarrow> string \<Rightarrow> proposal list" where
  "extractProposals rt raw =
     (case payloadMatch raw of
        None \<Rightarrow> []
      | Some p \<Rightarrow>
          (case jsonParse rt p of
             SyntaxError \<Rightarrow> []
           | Payload None \<Rightarrow> []
           | Payload (Some ps) \<Rightarrow> ps))"

definition parseRawText :: "js_env \<Rightarrow> string option \<Rightarrow> parsed_plan" where
  "parseRawText rt raw_text =
     (case raw_text of
        None \<Rightarrow> \<lparr>allProposals = [], detailedAnalysis = []\<rparr>
      | Some raw \<Rightarrow>
          if raw = [] then \<lparr>allProposals = [], detailedAnalysis = []\<rparr>
          else \<lparr>allProposals = extractProposals rt raw, detailedAnalysis = extractAnalysis raw\<rparr>)"

section \<open>The backend and the state of \<open>MainApp\<close>\<close>

text \<open>
  A \<^verbatim>\<open>fetch\<close> either rejects (network failure) or resolves to a response with a status,
  a body text (\<^verbatim>\<open>res.text()\<close>) and the body decoded by \<^verbatim>\<open>res.json()\<close>; \<open>None\<close> is a body
  on which \<^verbatim>\<open>res.json()\<close>, or the first field access on its result, raises. A decoded body
  carries the fields that the code reads, with the types of the interface; a field that the
  code tests for presence is an option.
\<close>

datatype 'a reply = FetchFailed | Response nat string "'a option"

definition resOk :: "nat \<Rightarrow> bool" where
  "resOk status = (200 \<le> status \<and> status \<le> 299)"

record start_body =
  finished :: bool
  session_id :: "string option"
  sb_message :: "string option"
  raw_text :: "string option"

record decision_body =
  result_status :: "string option"
  dec_finished :: bool

record apply_body =
  ab_ok :: "bool option"
  ab_count :: "string option"
  ab_message :: "string option"

record support_body =
  sp_text :: "string option"

record next_q =
  qid :: string
  q_text :: string

record answer_body =
  bs :: "real option"
  next_interval_min :: "real option"

text \<open>The requests, in the order of the endpoints of the code.\<close>

datatype api_call =
    CheckinNext
  | CheckinAnswer string nat
  | ScheduleStart string string nat
  | ScheduleDecision "string option" bool
  | SchedulerApply string "proposal list"
  | Support string string

text \<open>
  The backend answers a request knowing how many requests came before it: the first
  argument of each field is the length of the trace of calls so far.
\<close>

record backend =
  checkinNext :: "nat \<Rightarrow> next_q reply"
  checkinAnswer :: "nat \<Rightarrow> string \<Rightarrow> nat \<Rightarrow> answer_body reply"
  scheduleStart :: "nat \<Rightarrow> string \<Rightarrow> string \<Rightarrow> nat \<Rightarrow> start_body reply"
  scheduleDecision :: "nat \<Rightarrow> string option \<Rightarrow> bool \<Rightarrow> decision_body reply"
  schedulerApply :: "nat \<Rightarrow> string \<Rightarrow> proposal list \<Rightarrow> apply_body reply"
  support :: "nat \<Rightarrow> string \<Rightarrow> string \<Rightarrow> support_body reply"

datatype sender = User | Buddy

text \<open>
  A chat message; its \<^verbatim>\<open>id\<close> and \<^verbatim>\<open>timestamp\<close> are clock readings that only the
  rendering uses, and are left out.
\<close>

record chat_message =
  sender :: sender
  message :: string

definition createMessage :: "string \<Rightarrow> chat_message" where
  "createMessage m = \<lparr>sender = Buddy, message = m\<rparr>"

text \<open>What a \<^verbatim>\<open>setTimeout\<close> callback of the component does when it fires.\<close>

datatype timer_action =
    EnableQuestions
  | StartReview "proposal list" "string option"
  | ShowDayPrompt "day_proposal list"

text \<open>
  The state variables of the component that the handlers below read or write, the counter
  \<^verbatim>\<open>initialCountRef\<close>, and two fields that record effects: the trace of backend calls and
  the pending timers (delay in milliseconds, action).
\<close>

record app_state =
  messages :: "chat_message list"
  inputMessage :: string
  activeEmail :: "string option"
  burnoutScore :: "real option"
  needsInitialQuestions :: bool
  questionsAvailable :: bool
  isQuestionnaireOpen :: bool
  cooldownUntil :: "real option"
  questionnaireInProgress :: bool
  currentQ :: "next_q option"
  initialCount :: nat
  currentSessionId :: "string option"
  pendingProposals :: "proposal list"
  awaitingConsent :: bool
  currentDayProposals :: "day_proposal list"
  currentDayIndex :: nat
  groupedProposals :: day_groups
  awaitingDayConsent :: bool
  calls :: "api_call list"
  timers :: "(real \<times> timer_action) list"

definition say :: "string \<Rightarrow> app_state \<Rightarrow> app_state" where
  "say m w = w\<lparr>messages := messages w @ [createMessage m]\<rparr>"

definition request :: "api_call \<Rightarrow> app_state \<Rightarrow> app_state" where
  "request c w = w\<lparr>calls := calls w @ [c]\<rparr>"

text \<open>An \<^verbatim>\<open>async\<close> function either returns a value or raises, in a state.\<close>

datatype 'a completion = Throws | Returns 'a

text \<open>Truthiness of an optional string: present and not empty.\<close>

definition truthy :: "string option \<Rightarrow> bool" where
  "truthy s = (case s of None \<Rightarrow> False | Some t \<Rightarrow> t \<noteq> [])"

definition orElse :: "string option \<Rightarrow> string \<Rightarrow> string" where
  "orElse s d = (case s of None \<Rightarrow> d | Some t \<Rightarrow> if t \<noteq> [] then t else d)"

section \<open>Planning and the day-by-day review\<close>

text \<open>
  A handler is a closure over the state of the render that created it: the model reads the
  state variables from the state \<open>w\<close> the handler starts in, and threads the writes.
  \<^verbatim>\<open>planWithManager\<close> returns \<^verbatim>\<open>{ok: false, message}\<close> or
  \<^verbatim>\<open>{ok: true, proposals, sessionId, detailedAnalysis}\<close>; its fields \<^verbatim>\<open>text\<close> and
  \<^verbatim>\<open>rawText\<close> are read by no caller.
\<close>

datatype plan_result =
    PlanFailure string
  | PlanSuccess "proposal list" "string option" string

definition planWithManager ::
  "js_env \<Rightarrow> backend \<Rightarrow> string \<Rightarrow> nat \<Rightarrow> app_state \<Rightarrow> plan_result completion \<times> app_state" where
  "planWithManager rt be user days w =
     (if \<not> truthy (activeEmail w)
      then (Returns (PlanFailure ''Please connect Google Calendar first.''), w)
      else
        let email = orElse (activeEmail w) [];
            w' = request (ScheduleStart email user days) w
        in case scheduleStart be (length (calls w)) email user days of
             FetchFailed \<Rightarrow> (Throws, w')
           | Response status txt body \<Rightarrow>
               if status = 401
               then (Returns (PlanFailure ''Authorization required. Connect Google Calendar first.''), w')
               else if \<not> resOk status
               then (Returns (PlanFailure (''Planner error: '' @ txt)), w')
               else (case body of
                       None \<Rightarrow> (Throws, w')
                     | Some data \<Rightarrow>
                         if finished data \<and> \<not> truthy (session_id data)
                         then (Returns (PlanFailure
                                 (orElse (sb_message data) ''No suggestions at this time.'')), w')
                         else
                           let parsed = parseRawText rt (raw_text data)
                           in (Returns (PlanSuccess (allProposals parsed) (session_id data)
                                          (detailedAnalysis parsed)), w')))"

text \<open>
  \<^verbatim>\<open>startDayByDayApproval\<close>: \<open>None\<close> is the \<^verbatim>\<open>RangeError\<close> of the grouping, raised
  before any state is set.
\<close>

definition startDayByDayApproval ::
  "js_env \<Rightarrow> proposal list \<Rightarrow> string option \<Rightarrow> app_state \<Rightarrow> app_state option" where
  "startDayByDayApproval rt proposals sessionId w =
     (case groupProposalsByDay rt proposals of
        Inl e \<Rightarrow> None
      | Inr grouped \<Rightarrow>
          let dayKeys = sortedDayKeys grouped;
              w1 = w\<lparr>groupedProposals := grouped, currentDayIndex := 0,
                     currentSessionId := sessionId\<rparr>
          in Some (case dayKeys of
                     [] \<Rightarrow> w1
                   | k # _ \<Rightarrow>
                       let firstDay = groupAt grouped k
                       in say (dayPrompt rt firstDay)
                            (w1\<lparr>currentDayProposals := firstDay, awaitingDayConsent := True\<rparr>)))"

text \<open>
  One decision call of the accept loop counts when the fetch resolves, the response is ok,
  its body decodes and \<^verbatim>\<open>result.result?.status\<close> is \<^verbatim>\<open>"scheduled"\<close>; the \<^verbatim>\<open>try\<close>/\<^verbatim>\<open>catch\<close>
  inside the loop body swallows everything else.
\<close>

definition decisionScheduled :: "decision_body reply \<Rightarrow> bool" where
  "decisionScheduled r =
     (case r of
        FetchFailed \<Rightarrow> False
      | Response status txt body \<Rightarrow>
          resOk status \<and>
          (case body of None \<Rightarrow> False | Some result \<Rightarrow> result_status result = Some ''scheduled''))"

fun acceptLoop ::
  "backend \<Rightarrow> string option \<Rightarrow> day_proposal list \<Rightarrow> nat \<times> app_state \<Rightarrow> nat \<times> app_state" where
  "acceptLoop be sid [] (acceptedCount, w) = (acceptedCount, w)"
| "acceptLoop be sid (p # ps) (acceptedCount, w) =
     acceptLoop be sid ps
       (if decisionScheduled (scheduleDecision be (length (calls w)) sid True)
        then acceptedCount + 1 else acceptedCount,
        request (ScheduleDecision sid True) w)"

fun rejectLoop :: "string option \<Rightarrow> day_proposal list \<Rightarrow> app_state \<Rightarrow> app_state" where
  "rejectLoop sid [] w = w"
| "rejectLoop sid (p # ps) w = rejectLoop sid ps (request (ScheduleDecision sid False) w)"

text \<open>\<^verbatim>\<open>currentDayProposals[0]?.dayLabel\<close> inside a template.\<close>

definition firstDayLabel :: "day_proposal list \<Rightarrow> string" where
  "firstDayLabel ps = (case ps of [] \<Rightarrow> ''undefined'' | p # _ \<Rightarrow> dayLabel p)"

definition addedSummary :: "nat \<Rightarrow> day_proposal list \<Rightarrow> string" where
  "addedSummary n ps =
     ''Added '' @ showNat n @ '' activities for '' @ firstDayLabel ps @ '' '' @ CHECK_MARK"

text \<open>
  The last part of \<^verbatim>\<open>handleDayApproval\<close> ("Move to next day"), which reads the groups and
  the index of the starting state \<open>w0\<close>: either the next day becomes current and its
  prompt is left to a timer of one second, or the review is finished and its state cleared.
\<close>

definition advanceDay :: "js_env \<Rightarrow> app_state \<Rightarrow> app_state \<Rightarrow> app_state" where
  "advanceDay rt w0 w =
     (let dayKeys = sortedDayKeys (groupedProposals w0);
          nextDayIndex = currentDayIndex w0 + 1
      in if nextDayIndex < length dayKeys
         then
           let nextDay = groupAt (groupedProposals w0) (dayKeys ! nextDayIndex)
           in w\<lparr>currentDayIndex := nextDayIndex, currentDayProposals := nextDay,
                timers := timers w @ [(1000, ShowDayPrompt nextDay)]\<rparr>
         else
           say ''Finished reviewing all days! Let me know if you need anything else.''
             (w\<lparr>awaitingDayConsent := False, currentSessionId := None, groupedProposals := [],
                 currentDayProposals := [], currentDayIndex := 0\<rparr>))"

definition handleDayApproval :: "js_env \<Rightarrow> backend \<Rightarrow> bool \<Rightarrow> app_state \<Rightarrow> app_state" where
  "handleDayApproval rt be approve w =
     (if approve \<and> currentDayProposals w \<noteq> []
      then
        (case acceptLoop be (currentSessionId w) (currentDayProposals w) (0, w) of
           (acceptedCount, w1) \<Rightarrow>
             advanceDay rt w (say (addedSummary acceptedCount (currentDayProposals w)) w1))
      else
        advanceDay rt w
          (say (''Skipped activities for '' @ firstDayLabel (currentDayProposals w))
             (rejectLoop (currentSessionId w) (currentDayProposals w) w)))"

section \<open>The legacy all-at-once consent\<close>

record apply_result =
  ar_ok :: bool
  ar_count :: string
  ar_message :: "string option"

text \<open>
  \<^verbatim>\<open>applyProposalsDirect\<close> returns \<^verbatim>\<open>{ ok: true, ...data }\<close>: the fields of the body win
  over \<^verbatim>\<open>ok: true\<close>, and \<^verbatim>\<open>count\<close> is printed as the body has it.
\<close>

definition applyProposalsDirect ::
  "backend \<Rightarrow> proposal list \<Rightarrow> app_state \<Rightarrow> apply_result completion \<times> app_state" where
  "applyProposalsDirect be proposals w =
     (if \<not> truthy (activeEmail w)
      then (Returns \<lparr>ar_ok = False, ar_count = ''undefined'',
                      ar_message = Some ''No authorized calendar email.''\<rparr>, w)
      else
        let email = orElse (activeEmail w) [];
            w' = request (SchedulerApply email proposals) w
        in case schedulerApply be (length (calls w)) email proposals of
             FetchFailed \<Rightarrow> (Throws, w')
           | Response status txt body \<Rightarrow>
               if \<not> resOk status
               then (Returns \<lparr>ar_ok = False, ar_count = ''undefined'',
                               ar_message = Some (''Apply error: '' @ txt)\<rparr>, w')
               else (case body of
                       None \<Rightarrow> (Throws, w')
                     | Some data \<Rightarrow>
                         (Returns \<lparr>ar_ok = (case ab_ok data of None \<Rightarrow> True | Some b \<Rightarrow> b),
                                   ar_count = (case ab_count data of None \<Rightarrow> ''undefined'' | Some c \<Rightarrow> c),
                                   ar_message = ab_message data\<rparr>, w')))"

text \<open>
  The loop of \<^verbatim>\<open>applyProposalsWithManager\<close>: a rejected fetch or an undecodable body
  raises; a response that is not ok, or a body with \<^verbatim>\<open>finished\<close>, breaks out of the loop.
\<close>

fun applyLoop ::
  "backend \<Rightarrow> string option \<Rightarrow> proposal list \<Rightarrow> string list \<Rightarrow> app_state
     \<Rightarrow> string list completion \<times> app_state" where
  "applyLoop be sid [] accepted w = (Returns accepted, w)"
| "applyLoop be sid (p # ps) accepted w =
     (let w' = request (ScheduleDecision sid True) w
      in case scheduleDecision be (length (calls w)) sid True of
           FetchFailed \<Rightarrow> (Throws, w')
         | Response status txt body \<Rightarrow>
             if \<not> resOk status then (Returns accepted, w')
             else (case body of
                     None \<Rightarrow> (Throws, w')
                   | Some result \<Rightarrow>
                       let accepted' =
                             (if result_status result = Some ''scheduled''
                              then accepted @ [summary p] else accepted)
                       in if dec_finished result then (Returns accepted', w')
                          else applyLoop be sid ps accepted' w'))"

definition applyProposalsWithManager ::
  "backend \<Rightarrow> string option \<Rightarrow> proposal list \<Rightarrow> app_state
     \<Rightarrow> apply_result completion \<times> app_state" where
  "applyProposalsWithManager be sessionId proposals w =
     (if \<not> truthy sessionId then applyProposalsDirect be proposals w
      else
        (case applyLoop be sessionId proposals [] w of
           (Throws, w') \<Rightarrow> (Throws, w')
         | (Returns accepted, w') \<Rightarrow>
             (Returns \<lparr>ar_ok = True, ar_count = showNat (length accepted),
                       ar_message = None\<rparr>, w')))"

section \<open>The chat handler\<close>

text \<open>
  The promise of \<^verbatim>\<open>handleSendMessage\<close> is fulfilled, or rejected by an exception that no
  \<^verbatim>\<open>catch\<close> of the handler covers; the state writes made before it stay.
\<close>

datatype handler_result = Fulfilled app_state | Rejected app_state

definition clearLegacyConsent :: "app_state \<Rightarrow> app_state" where
  "clearLegacyConsent w = w\<lparr>pendingProposals := [], currentSessionId := None, awaitingConsent := False\<rparr>"

definition dayConsentBranch :: "js_env \<Rightarrow> backend \<Rightarrow> string \<Rightarrow> app_state \<Rightarrow> app_state" where
  "dayConsentBranch rt be userText w =
     (let s = toLowerCase userText
      in if isAffirmative s then handleDayApproval rt be True w
         else if isNegative s then handleDayApproval rt be False w
         else say ''Please reply with **yes** or **no** for this day's activities.'' w)"

definition legacyConsentBranch :: "backend \<Rightarrow> string \<Rightarrow> app_state \<Rightarrow> handler_result" where
  "legacyConsentBranch be userText w =
     (let s = toLowerCase userText
      in if isAffirmative s
         then (case applyProposalsWithManager be (currentSessionId w) (pendingProposals w) w of
                 (Throws, w') \<Rightarrow> Rejected w'
               | (Returns res, w') \<Rightarrow>
                   Fulfilled (clearLegacyConsent
                     (if ar_ok res
                      then say (''Added '' @ ar_count res @ '' item(s) to your Google Calendar ''
                                  @ CHECK_MARK) w'
                      else say (orElse (ar_message res)
                                  ''Something went wrong while applying the plan.'') w')))
         else if isNegative s
         then Fulfilled (clearLegacyConsent
                (say (''No problem'' @ EM_DASH
                        @ ''nothing was added. Tell me if you want to plan again.'') w))
         else Fulfilled (say ''Please reply with **yes** or **no**.'' w))"

definition planningBranch :: "js_env \<Rightarrow> backend \<Rightarrow> string \<Rightarrow> app_state \<Rightarrow> handler_result" where
  "planningBranch rt be user w =
     (case planWithManager rt be user 3 w of
        (Throws, w') \<Rightarrow> Rejected w'
      | (Returns (PlanSuccess proposals sessionId analysis), w') \<Rightarrow>
          if proposals \<noteq> []
          then
            let w1 = (if analysis \<noteq> [] then say analysis w' else w')
            in Fulfilled (w1\<lparr>timers := timers w1 @ [(2000, StartReview proposals sessionId)]\<rparr>)
          else Fulfilled w'
      | (Returns (PlanFailure m), w') \<Rightarrow> Fulfilled (say m w'))"

definition supportBranch :: "backend \<Rightarrow> string \<Rightarrow> string \<Rightarrow> app_state \<Rightarrow> app_state" where
  "supportBranch be user userText w =
     (let w' = request (Support user userText) w
      in case support be (length (calls w)) user userText of
           FetchFailed \<Rightarrow>
             say ''I'm having trouble connecting right now. Please try again in a moment.'' w'
         | Response status txt body \<Rightarrow>
             (case body of
                None \<Rightarrow>
                  say ''I'm having trouble connecting right now. Please try again in a moment.'' w'
              | Some data \<Rightarrow> say (orElse (sp_text data) ''I understand. How can I help further?'') w'))"

definition handleSendMessage :: "js_env \<Rightarrow> backend \<Rightarrow> string \<Rightarrow> app_state \<Rightarrow> handler_result" where
  "handleSendMessage rt be user w =
     (if trim (inputMessage w) = [] then Fulfilled w
      else
        let userText = trim (inputMessage w);
            w1 = w\<lparr>messages := messages w @ [\<lparr>sender = User, message = userText\<rparr>],
                   inputMessage := []\<rparr>
        in if awaitingDayConsent w then Fulfilled (dayConsentBranch rt be userText w1)
           else if awaitingConsent w then legacyConsentBranch be userText w1
           else if wantsSchedulingIntent userText then planningBranch rt be user w1
           else Fulfilled (supportBranch be user userText w1))"

section \<open>The check-in questionnaire\<close>

definition loadNextQuestion :: "backend \<Rightarrow> app_state \<Rightarrow> unit completion \<times> app_state" where
  "loadNextQuestion be w =
     (let w' = request CheckinNext w
      in case checkinNext be (length (calls w)) of
           FetchFailed \<Rightarrow> (Throws, w')
         | Response status txt body \<Rightarrow>
             if \<not> resOk status then (Throws, w')
             else (case body of
                     None \<Rightarrow> (Throws, w')
                   | Some q \<Rightarrow> (Returns (), w'\<lparr>currentQ := Some q\<rparr>)))"

text \<open>
  \<^verbatim>\<open>Number(data.next_interval_min || 0)\<close> is 0 for a missing field. A positive number of
  minutes sets the cooldown, disables the questions and starts the timer that enables
  them again.
\<close>

definition answerQuestion ::
  "js_env \<Rightarrow> backend \<Rightarrow> string \<Rightarrow> nat \<Rightarrow> app_state \<Rightarrow> answer_body completion \<times> app_state" where
  "answerQuestion rt be q v w =
     (let w' = request (CheckinAnswer q v) w
      in case checkinAnswer be (length (calls w)) q v of
           FetchFailed \<Rightarrow> (Throws, w')
         | Response status txt body \<Rightarrow>
             if \<not> resOk status then (Throws, w')
             else (case body of
                     None \<Rightarrow> (Throws, w')
                   | Some data \<Rightarrow>
                       let w1 = (case bs data of None \<Rightarrow> w' | Some b \<Rightarrow> w'\<lparr>burnoutScore := Some b\<rparr>);
                           mins = (case next_interval_min data of None \<Rightarrow> 0 | Some m \<Rightarrow> m)
                       in if mins > 0
                          then (Returns data,
                                w1\<lparr>cooldownUntil := Some (dateNow rt + mins * 60000),
                                   questionsAvailable := False,
                                   timers := timers w1 @ [(mins * 60000, EnableQuestions)]\<rparr>)
                          else (Returns data, w1)))"

text \<open>
  The button of the left panel and the effect on \<^verbatim>\<open>isQuestionnaireOpen\<close>: the click opens
  the modal unless the button is disabled; the effect, which runs when the flag changes to
  true, resets the counter and loads the first question, clearing \<^verbatim>\<open>currentQ\<close> on failure.
\<close>

definition openQuestionnaire :: "backend \<Rightarrow> app_state \<Rightarrow> app_state" where
  "openQuestionnaire be w =
     (if \<not> questionsAvailable w \<or> isQuestionnaireOpen w then w
      else
        (case loadNextQuestion be
                (w\<lparr>isQuestionnaireOpen := True, initialCount := 0,
                   questionnaireInProgress := True\<rparr>) of
           (Throws, w') \<Rightarrow> w'\<lparr>currentQ := None\<rparr>
         | (Returns u, w') \<Rightarrow> w'))"

definition answerNotRecorded :: "app_state \<Rightarrow> app_state" where
  "answerNotRecorded w = say ''Hmm, I couldn't record that answer. Please try again.'' w"

text \<open>The \<^verbatim>\<open>else\<close> branch of \<^verbatim>\<open>submitAnswer\<close>, after the answer is recorded.\<close>

definition finishCheckin :: "js_env \<Rightarrow> backend \<Rightarrow> string \<Rightarrow> app_state \<Rightarrow> app_state \<Rightarrow> app_state" where
  "finishCheckin rt be user w0 w =
     (let w1 = say ''Thanks for completing your check-in.''
                 (w\<lparr>needsInitialQuestions := False, isQuestionnaireOpen := False,
                    questionsAvailable := False, questionnaireInProgress := False\<rparr>)
      in if \<not> truthy (activeEmail w0)
         then say (''To suggest restorative activities, please connect your Google Calendar ''
                     @ ''(middle panel).'') w1
         else
           (case planWithManager rt be user 3 w1 of
              (Throws, w2) \<Rightarrow> answerNotRecorded w2
            | (Returns (PlanSuccess proposals sessionId analysis), w2) \<Rightarrow>
                if proposals \<noteq> []
                then
                  let w3 = (if analysis \<noteq> [] then say analysis w2 else w2)
                  in (case startDayByDayApproval rt proposals sessionId w3 of
                        None \<Rightarrow> answerNotRecorded w3
                      | Some w4 \<Rightarrow> w4)
                else w2
            | (Returns (PlanFailure m), w2) \<Rightarrow> say m w2))"

definition submitAnswer :: "js_env \<Rightarrow> backend \<Rightarrow> string \<Rightarrow> nat \<Rightarrow> app_state \<Rightarrow> app_state" where
  "submitAnswer rt be user v w =
     (case currentQ w of
        None \<Rightarrow> w
      | Some q \<Rightarrow>
          (case answerQuestion rt be (qid q) v w of
             (Throws, w1) \<Rightarrow> answerNotRecorded w1
           | (Returns resp, w1) \<Rightarrow>
               let w2 = w1\<lparr>initialCount := initialCount w1 + 1\<rparr>
               in if initialCount w2 < 5 \<and> needsInitialQuestions w
                  then (case loadNextQuestion be w2 of
                          (Throws, w3) \<Rightarrow> answerNotRecorded w3
                        | (Returns u, w3) \<Rightarrow> w3)
                  else finishCheckin rt be user w w2))"

section \<open>The initial state and resetting the conversation\<close>

definition greeting :: "string \<Rightarrow> chat_message" where
  "greeting user =
     \<lparr>sender = Buddy,
      message = ''Hi '' @ user @ ''! I'm your Unfrazzle Buddy. How can I support you today?''\<rparr>"

text \<open>The initial values of the \<^verbatim>\<open>useState\<close> and \<^verbatim>\<open>useRef\<close> calls; no call, no timer.\<close>

definition initialState :: "string \<Rightarrow> app_state" where
  "initialState user =
     \<lparr>messages = [greeting user], inputMessage = [], activeEmail = None, burnoutScore = None,
      needsInitialQuestions = True, questionsAvailable = True, isQuestionnaireOpen = False,
      cooldownUntil = None, questionnaireInProgress = False, currentQ = None, initialCount = 0,
      currentSessionId = None, pendingProposals = [], awaitingConsent = False,
      currentDayProposals = [], currentDayIndex = 0, groupedProposals = [],
      awaitingDayConsent = False, calls = [], timers = []\<rparr>"

text \<open>The \<^verbatim>\<open>onClick\<close> of the button titled "Reset conversation": four state writes.\<close>

definition resetConversation :: "string \<Rightarrow> app_state \<Rightarrow> app_state" where
  "resetConversation user w =
     w\<lparr>messages := [greeting user], inputMessage := [], pendingProposals := [],
       awaitingConsent := False\<rparr>"

section \<open>Notions of the specification and sample data\<close>

text \<open>
  These definitions are not translated from the code. \<open>contains m s\<close> is the
  specification's "the text \<open>s\<close> contains the marker \<open>m\<close>".
\<close>

fun contains :: "string \<Rightarrow> string \<Rightarrow> bool" where
  "contains m [] = (m = [])"
| "contains m (c # cs) = (startsWith m (c # cs) \<or> contains m cs)"

text \<open>\<open>hasDayKey rt k p\<close>: the day key of the start of \<open>p\<close> is \<open>k\<close>.\<close>

definition hasDayKey :: "js_env \<Rightarrow> string \<Rightarrow> 'a proposal_scheme \<Rightarrow> bool" where
  "hasDayKey rt k p = (dayKeyOf rt (start p) = Inr k)"

text \<open>
  A runtime for the examples: an en-US browser whose local time is UTC. The two formatters
  are tables over the timestamps of the examples; \<open>sampleJsonParse\<close> agrees with
  \<^verbatim>\<open>JSON.parse\<close> on the two payload texts of the examples, \<^verbatim>\<open>{}\<close> and \<^verbatim>\<open>{oops}\<close>.
  \<open>tokyoRuntime\<close> is the same browser in Japan, where local time is nine hours ahead of UTC.
\<close>

definition sampleDateLabel :: "string \<Rightarrow> string" where
  "sampleDateLabel s =
     (if take 10 s = ''2024-01-02'' then ''Tuesday, Jan 2''
      else if take 10 s = ''2024-01-03'' then ''Wednesday, Jan 3''
      else ''Invalid Date'')"

definition sampleTimeLabel :: "string \<Rightarrow> string" where
  "sampleTimeLabel s =
     (if s = ''2024-01-02T09:00'' then ''09:00 AM''
      else if s = ''2024-01-02T09:30'' then ''09:30 AM''
      else if s = ''2024-01-03T08:00'' then ''08:00 AM''
      else if s = ''2024-01-03T08:15'' then ''08:15 AM''
      else ''Invalid Date'')"

definition sampleJsonParse :: "string \<Rightarrow> parsed_payload" where
  "sampleJsonParse s = (if s = ''{}'' then Payload None else SyntaxError)"

definition utcRuntime :: js_env where
  "utcRuntime =
     \<lparr>tzOffsetMinutes = 0, parseOtherDate = (\<lambda>s. None),
      toLocaleDateString = sampleDateLabel, toLocaleTimeString = sampleTimeLabel,
      jsonParse = sampleJsonParse, dateNow = 1704186000000\<rparr>"

definition tokyoRuntime :: js_env where
  "tokyoRuntime = utcRuntime\<lparr>tzOffsetMinutes := 540\<rparr>"

definition walk :: proposal where
  "walk = \<lparr>p_type = ''activity'', summary = ''Walk'', start = ''2024-01-02T09:00'',
           p_end = ''2024-01-02T09:30'', reason = None\<rparr>"

definition meditate :: proposal where
  "meditate = \<lparr>p_type = ''activity'', summary = ''Meditate'', start = ''2024-01-03T08:00'',
               p_end = ''2024-01-03T08:15'', reason = None\<rparr>"

text \<open>
  Sample states. \<open>reviewState\<close> is the state after the review of the two proposals of the
  examples has started in the UTC browser, with session \<^verbatim>\<open>s1\<close>; \<open>busyDayState\<close> is a
  review whose first day has three proposals. \<open>flakyBackend\<close> fails the second request
  it receives and schedules on every other decision request.
\<close>

definition connectedState :: app_state where
  "connectedState = (initialState ''Ann'')\<lparr>activeEmail := Some ''ann@example.com''\<rparr>"

definition reviewState :: app_state where
  "reviewState =
     (case startDayByDayApproval utcRuntime [walk, meditate] (Some ''s1'') connectedState of
        None \<Rightarrow> connectedState
      | Some w \<Rightarrow> w)"

definition stretch :: proposal where
  "stretch = walk\<lparr>summary := ''Stretch''\<rparr>"

definition nap :: proposal where
  "nap = walk\<lparr>summary := ''Nap''\<rparr>"

definition busyDayState :: app_state where
  "busyDayState =
     (case startDayByDayApproval utcRuntime [walk, stretch, nap, meditate] (Some ''s1'')
             connectedState of
        None \<Rightarrow> connectedState
      | Some w \<Rightarrow> w)"

definition scheduledReply :: "decision_body reply" where
  "scheduledReply = Response 200 [] (Some \<lparr>result_status = Some ''scheduled'', dec_finished = False\<rparr>)"

definition rejectedReply :: "decision_body reply" where
  "rejectedReply = Response 200 [] (Some \<lparr>result_status = Some ''rejected'', dec_finished = False\<rparr>)"

definition flakyBackend :: backend where
  "flakyBackend =
     \<lparr>checkinNext = (\<lambda>n. FetchFailed),
      checkinAnswer = (\<lambda>n q v. FetchFailed),
      scheduleStart = (\<lambda>n email user days. FetchFailed),
      scheduleDecision = (\<lambda>n sid accept. if n = 1 then FetchFailed else scheduledReply),
      schedulerApply = (\<lambda>n email ps. FetchFailed),
      support = (\<lambda>n user m. FetchFailed)\<rparr>"

text \<open>
  \<open>refusingBackend\<close> schedules nothing: its first reply has status 500 (with a body that says
  "scheduled"), its second is ok with a body that does not decode, and every later one is ok
  with the status "rejected".
\<close>

definition refusingBackend :: backend where
  "refusingBackend =
     \<lparr>checkinNext = (\<lambda>n. FetchFailed),
      checkinAnswer = (\<lambda>n q v. FetchFailed),
      scheduleStart = (\<lambda>n email user days. FetchFailed),
      scheduleDecision =
        (\<lambda>n sid accept.
           if n = 0
           then Response 500 [] (Some \<lparr>result_status = Some ''scheduled'', dec_finished = False\<rparr>)
           else if n = 1 then Response 200 [] None
           else rejectedReply),
      schedulerApply = (\<lambda>n email ps. FetchFailed),
      support = (\<lambda>n user m. FetchFailed)\<rparr>"

text \<open>
  What the check-in claims observe of a state: whether the modal is open, whether questions
  are available, the cooldown, the pending timers, and how many questions were fetched.
\<close>

definition questionFetches :: "app_state \<Rightarrow> nat" where
  "questionFetches w = length (filter (\<lambda>c. c = CheckinNext) (calls w))"

definition checkinView ::
  "app_state \<Rightarrow> bool \<times> bool \<times> real option \<times> (real \<times> timer_action) list \<times> nat" where
  "checkinView w =
     (isQuestionnaireOpen w, questionsAvailable w, cooldownUntil w, timers w, questionFetches w)"

text \<open>
  \<open>assessedState\<close> is a state after the initial assessment, with no calendar connected;
  \<open>checkinBackend\<close> serves one question and answers every submission with a score and a
  next interval of 90 minutes.
\<close>

definition assessedState :: app_state where
  "assessedState = (initialState ''Ann'')\<lparr>needsInitialQuestions := False\<rparr>"

definition checkinBackend :: backend where
  "checkinBackend =
     \<lparr>checkinNext = (\<lambda>n. Response 200 [] (Some \<lparr>qid = ''q7'', q_text = ''How drained do you feel?''\<rparr>)),
      checkinAnswer = (\<lambda>n q v. Response 200 [] (Some \<lparr>bs = Some 62, next_interval_min = Some 90\<rparr>)),
      scheduleStart = (\<lambda>n email user days. FetchFailed),
      scheduleDecision = (\<lambda>n sid accept. FetchFailed),
      schedulerApply = (\<lambda>n email ps. FetchFailed),
      support = (\<lambda>n user m. FetchFailed)\<rparr>"

section \<open>Evaluating the model on the sample data\<close>

lemmas string_eval = startsWith_def trim_def isWhiteSpace_def toLowerCase_def toLowerCaseChar_def
  char_of_eq_iff

lemmas date_eval = dayKeyOf_def parseDate_def parseIsoLocal_def digitValue_def daysInMonth_def
  isLeapYear_def daysFromCivil_def daysOfShiftedYear_def dayOfEra_def dayOfYear_def isoDatePart_def
  civilFromDays_def civilOfEra_def yearOfEra_def civilOfYearOfEra_def civilOfDayOfYear_def
  civilOfMonthIndex_def isoYear_def padLeft_def showNat.simps

lemmas sample_eval = utcRuntime_def tokyoRuntime_def sampleJsonParse_def sampleDateLabel_def
  sampleTimeLabel_def walk_def meditate_def stretch_def nap_def

lemmas review_eval = startDayByDayApproval_def groupProposalsByDay_def labelProposal_def
  withDayLabel_def sortedDayKeys_def groupAt_def say_def createMessage_def dayPrompt_def
  formatDayProposals_def formatActivity_def

section \<open>Properties of the scheduler\<close>

subsection \<open>Rational bounds on \<open>exp 2\<close> and \<open>exp 6\<close>\<close>

lemma exp_double_le:
  fixes a c d :: real
  assumes "exp a \<le> c" and "c * c \<le> d"
  shows "exp (2 * a) \<le> d"
proof -
  have c0: "0 \<le> c" using assms(1) exp_ge_zero [of a] by linarith
  have "exp (2 * a) = exp a * exp a" by (simp add: exp_double power2_eq_square)
  also have "\<dots> \<le> c * c" using assms(1) c0 by (intro mult_mono) simp_all
  finally show ?thesis using assms(2) by linarith
qed

lemma exp_64th_upper: "exp (1/64 :: real) \<le> 10158692/10000000"
  using exp_bound [of "1/64 :: real"] by (simp add: power2_eq_square)

lemma exp2_upper: "exp (2::real) < 151/20"
proof -
  have "exp (1/32 :: real) \<le> 10319903/10000000"
    using exp_double_le [OF exp_64th_upper, of "10319903/10000000"] by simp
  from exp_double_le [OF this, of "10650040/10000000"]
  have "exp (1/16 :: real) \<le> 10650040/10000000" by simp
  from exp_double_le [OF this, of "11342336/10000000"]
  have "exp (1/8 :: real) \<le> 11342336/10000000" by simp
  from exp_double_le [OF this, of "12864859/10000000"]
  have "exp (1/4 :: real) \<le> 12864859/10000000" by simp
  from exp_double_le [OF this, of "16550460/10000000"]
  have "exp (1/2 :: real) \<le> 16550460/10000000" by simp
  from exp_double_le [OF this, of "27391773/10000000"]
  have "exp (1 :: real) \<le> 27391773/10000000" by simp
  from exp_double_le [OF this, of "75030923/10000000"]
  have "exp (2 :: real) \<le> 75030923/10000000" by simp
  then show ?thesis by simp
qed

lemma exp_eighth_lower: "(145/128 :: real) \<le> exp (1/8)"
  using exp_lower_Taylor_quadratic [of "1/8 :: real"] by (simp add: power2_eq_square)

lemma exp2_lower: "(73/10 :: real) < exp 2"
proof -
  have "exp (2::real) = exp (of_nat 16 * (1/8))" by simp
  also have "\<dots> = exp (1/8 :: real) ^ 16" by (rule exp_of_nat_mult)
  finally have e: "exp (2::real) = exp (1/8) ^ 16" .
  have "(145/128 :: real) ^ 16 \<le> exp (1/8) ^ 16"
    by (rule power_mono [OF exp_eighth_lower]) simp
  moreover have "(73/10 :: real) < (145/128) ^ 16" by (simp add: power_divide)
  ultimately show ?thesis using e by linarith
qed

lemma exp6_lower: "(25::real) \<le> exp 6"
  using exp_lower_Taylor_quadratic [of "6 :: real"] by (simp add: power2_eq_square)

subsection \<open>The interval at the scores 0, 50, 100 and -100\<close>

lemma interval_minutes_0: "interval_minutes 0 = 240 - 210 / (1 + exp 2)"
  by (simp add: interval_minutes_def interval_ratio_def MIN_INTERVAL_MIN_def
      MAX_INTERVAL_MIN_def LOGISTIC_STEEPNESS_def algebra_simps)

lemma interval_minutes_100: "interval_minutes 100 = 30 + 210 / (1 + exp 2)"
proof -
  have p: "(0::real) < 1 + exp 2" by (simp add: add_pos_pos)
  have "1 - 1 / (1 + inverse (exp (2::real))) = 1 / (1 + exp 2)"
    using p by (simp add: divide_simps)
  then show ?thesis
    by (simp add: interval_minutes_def interval_ratio_def MIN_INTERVAL_MIN_def
      MAX_INTERVAL_MIN_def LOGISTIC_STEEPNESS_def exp_minus)
qed

lemma interval_minutes_50: "interval_minutes 50 = 135"
  by (simp add: interval_minutes_def interval_ratio_def MIN_INTERVAL_MIN_def
      MAX_INTERVAL_MIN_def LOGISTIC_STEEPNESS_def)

lemma interval_minutes_neg100: "interval_minutes (- 100) = 240 - 210 / (1 + exp 6)"
  by (simp add: interval_minutes_def interval_ratio_def MIN_INTERVAL_MIN_def
      MAX_INTERVAL_MIN_def LOGISTIC_STEEPNESS_def algebra_simps)

lemma logistic_tail_bounds:
  "(49/2 :: real) < 210 / (1 + exp 2) \<and> 210 / (1 + exp 2) < (51/2 :: real)"
proof -
  have p: "(0::real) < 1 + exp 2" by (simp add: add_pos_pos)
  have "(49/2) * (1 + exp (2::real)) < 210" using exp2_upper by simp
  then have a: "(49/2 :: real) < 210 / (1 + exp 2)" using p by (simp add: pos_less_divide_eq)
  have "210 < (51/2) * (1 + exp (2::real))" using exp2_lower by simp
  then have b: "210 / (1 + exp 2) < (51/2 :: real)" using p by (simp add: pos_divide_less_eq)
  from a b show ?thesis ..
qed

lemma interval_at_0: "calculateNextInterval 0 = 215"
  unfolding calculateNextInterval_def interval_minutes_0 round_def
  using logistic_tail_bounds by (simp add: floor_eq_iff)

lemma interval_at_100: "calculateNextInterval 100 = 55"
  unfolding calculateNextInterval_def interval_minutes_100 round_def
  using logistic_tail_bounds by (simp add: floor_eq_iff)

lemma interval_at_50: "calculateNextInterval 50 = 135"
  unfolding calculateNextInterval_def interval_minutes_50 by simp

lemma interval_at_neg100: "231 \<le> calculateNextInterval (- 100)"
proof -
  have p: "(0::real) < 1 + exp 6" by (simp add: add_pos_pos)
  have "210 \<le> 9 * (1 + exp (6::real))" using exp6_lower by simp
  then have "210 / (1 + exp (6::real)) \<le> 9" using p by (simp add: pos_divide_le_eq)
  then have "(231::real) \<le> interval_minutes (- 100)"
    unfolding interval_minutes_neg100 by simp
  then have "round (231::real) \<le> round (interval_minutes (- 100))" by (rule round_mono)
  then show ?thesis by (simp add: calculateNextInterval_def)
qed

subsection \<open>Monotonicity and range\<close>

lemma interval_ratio_mono: "s \<le> t \<Longrightarrow> interval_ratio s \<le> interval_ratio t"
  unfolding interval_ratio_def LOGISTIC_STEEPNESS_def
  by (intro divide_left_mono) (auto simp: add_pos_pos)

lemma interval_minutes_antimono: "s \<le> t \<Longrightarrow> interval_minutes t \<le> interval_minutes s"
  using interval_ratio_mono [of s t]
  by (simp add: interval_minutes_def MIN_INTERVAL_MIN_def MAX_INTERVAL_MIN_def)

lemma interval_antimono: "s \<le> t \<Longrightarrow> calculateNextInterval t \<le> calculateNextInterval s"
  unfolding calculateNextInterval_def by (intro round_mono interval_minutes_antimono)

lemma interval_ratio_range: "0 < interval_ratio s \<and> interval_ratio s < 1"
  unfolding interval_ratio_def by (simp add: add_pos_pos)

lemma interval_range: "30 \<le> calculateNextInterval s \<and> calculateNextInterval s \<le> 240"
proof -
  have lo: "30 \<le> interval_minutes s" and hi: "interval_minutes s \<le> 240"
    using interval_ratio_range [of s]
    by (simp_all add: interval_minutes_def MIN_INTERVAL_MIN_def MAX_INTERVAL_MIN_def)
  have "round (30::real) \<le> round (interval_minutes s)" by (rule round_mono [OF lo])
  moreover have "round (interval_minutes s) \<le> round (240::real)" by (rule round_mono [OF hi])
  ultimately show ?thesis by (simp add: calculateNextInterval_def)
qed

subsection \<open>The claims about the interval\<close>

text \<open>
  Claim C3, as stated, has \<open>nextInterval(0) = 240\<close> and \<open>nextInterval(100) = 30\<close>. The
  logistic ratio at score 0 is \<open>1 / (1 + exp 2)\<close>, about 0.119 and not 0, so the interval at
  score 0 is 215 minutes.
\<close>

theorem C3_endpoints_counterexample:
  "\<not> (calculateNextInterval 0 = 240 \<and> calculateNextInterval 100 = 30)"
  by (simp add: interval_at_0)

text \<open>
  Claim C3, amended: the interval is the logistic formula with \<open>MIN = 30\<close>, \<open>MAX = 240\<close> and
  \<open>k = 4\<close>, rounded to the nearest minute; it never increases when the score increases; at
  the scores 0, 50 and 100 it is 215, 135 and 55 minutes.
\<close>

theorem C3_interval_logistic:
  "calculateNextInterval score =
     round (30 + (240 - 30) * (1 - 1 / (1 + exp (- 4 * (score / 100 - 1 / 2)))))
   \<and> (\<forall>s t. s \<le> t \<longrightarrow> calculateNextInterval t \<le> calculateNextInterval s)
   \<and> calculateNextInterval 0 = 215
   \<and> calculateNextInterval 50 = 135
   \<and> calculateNextInterval 100 = 55"
proof -
  have "calculateNextInterval score =
     round (30 + (240 - 30) * (1 - 1 / (1 + exp (- 4 * (score / 100 - 1 / 2)))))"
    by (simp add: calculateNextInterval_def interval_minutes_def interval_ratio_def
        MIN_INTERVAL_MIN_def MAX_INTERVAL_MIN_def LOGISTIC_STEEPNESS_def)
  moreover have "\<forall>s t. s \<le> t \<longrightarrow> calculateNextInterval t \<le> calculateNextInterval s"
    by (simp add: interval_antimono)
  ultimately show ?thesis
    using interval_at_0 interval_at_50 interval_at_100 by blast
qed

theorem C3_interval_logistic_witness:
  "(0::real) \<le> 100 \<and> calculateNextInterval 100 \<le> calculateNextInterval 0"
  using C3_interval_logistic [of 0] by simp

text \<open>
  Claim C7, as stated, has the interval at every score below 0 equal to the interval at 0.
  The function applies the logistic formula to the score as it is: at score -100 the
  interval is at least 231 minutes, at score 0 it is 215.
\<close>

theorem C7_clamp_counterexample:
  "(- 100 :: real) < 0 \<and> calculateNextInterval (- 100) \<noteq> calculateNextInterval 0"
  using interval_at_neg100 by (simp add: interval_at_0)

text \<open>
  Claim C7, amended: the interval computation does not clamp and does not reject its
  score. A score outside \<open>[0, 100]\<close> goes through the same formula, so the interval at a
  score below 0 is at least the interval at 0, the interval at a score above 100 is at most
  the interval at 100, and every interval lies between 30 and 240 minutes.
\<close>

theorem C7_out_of_range_scores:
  "(s \<le> 0 \<longrightarrow> calculateNextInterval 0 \<le> calculateNextInterval s)
   \<and> (100 \<le> s \<longrightarrow> calculateNextInterval s \<le> calculateNextInterval 100)
   \<and> 30 \<le> calculateNextInterval s \<and> calculateNextInterval s \<le> 240"
  using interval_antimono [of s 0] interval_antimono [of 100 s] interval_range [of s]
  by blast

theorem C7_out_of_range_scores_witness:
  "(- 100 :: real) \<le> 0 \<and> calculateNextInterval 0 \<le> calculateNextInterval (- 100)
   \<and> (100 :: real) \<le> 150 \<and> calculateNextInterval 150 \<le> calculateNextInterval 100"
  using C7_out_of_range_scores [of "- 100"] C7_out_of_range_scores [of 150] by simp

section \<open>Properties of the response parsing\<close>

lemma startsWith_self: "startsWith m (m @ v)"
  by (simp add: startsWith_def)

lemma contains_self: "contains m (m @ v)"
proof (cases "m @ v")
  case Nil
  then show ?thesis by simp
next
  case (Cons a list)
  then show ?thesis using startsWith_self [of m v] by simp
qed

text \<open>\<open>contains\<close> is the usual notion: the marker is a contiguous part of the text.\<close>

lemma contains_iff: "contains m s \<longleftrightarrow> (\<exists>u v. s = u @ m @ v)"
proof
  show "contains m s \<Longrightarrow> \<exists>u v. s = u @ m @ v"
  proof (induction s)
    case Nil
    then show ?case by simp
  next
    case (Cons c cs)
    show ?case
    proof (cases "startsWith m (c # cs)")
      case True
      then have "c # cs = [] @ m @ drop (length m) (c # cs)"
        by (metis append_Nil append_take_drop_id startsWith_def)
      then show ?thesis by blast
    next
      case False
      with Cons obtain u v where "cs = u @ m @ v" by auto
      then have "c # cs = (c # u) @ m @ v" by simp
      then show ?thesis by blast
    qed
  qed
next
  assume "\<exists>u v. s = u @ m @ v"
  then obtain u v where s: "s = u @ m @ v" by blast
  show "contains m s" unfolding s
    by (induction u) (simp_all add: contains_self)
qed

lemma textBefore_no_marker: "m \<noteq> [] \<Longrightarrow> \<not> contains m s \<Longrightarrow> textBefore m s = None"
  by (induction s) auto

lemma payloadMatch_no_marker: "\<not> contains ''<payload>'' s \<Longrightarrow> payloadMatch s = None"
  by (induction s) (auto simp: payloadHere_def)

lemma textBefore_self: "textBefore m (m @ rest) = Some []"
proof (cases "m @ rest")
  case Nil
  then show ?thesis by simp
next
  case (Cons a list)
  then show ?thesis using startsWith_self [of m rest] by simp
qed

lemma textBefore_first:
  "\<forall>i<length pre. \<not> startsWith m (drop i (pre @ m @ rest)) \<Longrightarrow>
   textBefore m (pre @ m @ rest) = Some pre"
proof (induction pre)
  case Nil
  then show ?case by (simp add: textBefore_self)
next
  case (Cons a pre)
  from Cons.prems have "\<not> startsWith m (a # pre @ m @ rest)" by force
  moreover from Cons.prems have "\<forall>i<length pre. \<not> startsWith m (drop i (pre @ m @ rest))"
    by force
  ultimately show ?case using Cons.IH by simp
qed

lemma startsWith_drop_contains: "i \<le> length s \<Longrightarrow> startsWith m (drop i s) \<Longrightarrow> contains m s"
proof (induction s arbitrary: i)
  case Nil
  then show ?case by (simp add: startsWith_def)
next
  case (Cons c cs)
  then show ?case by (cases i) auto
qed

text \<open>
  The marker \<^verbatim>\<open><response>\<close> has its first character nowhere else, so an occurrence cannot
  begin inside a marker-free prefix and run into the marker that follows it.
\<close>

lemma response_tag_no_overlap:
  assumes "\<not> contains ''<response>'' pre" and "i < length pre"
  shows "\<not> startsWith ''<response>'' (drop i (pre @ ''<response>'' @ rest))"
proof
  let ?m = "''<response>''"
  assume sw: "startsWith ?m (drop i (pre @ ?m @ rest))"
  define s where "s = drop i pre"
  have s_ne: "0 < length s" using assms(2) by (simp add: s_def)
  have d: "drop i (pre @ ?m @ rest) = s @ ?m @ rest"
    using assms(2) by (simp add: s_def)
  from sw have t: "take (length ?m) (s @ ?m @ rest) = ?m"
    unfolding d startsWith_def .
  show False
  proof (cases "length ?m \<le> length s")
    case True
    then have "take (length ?m) (s @ ?m @ rest) = take (length ?m) s" by simp
    with t have "startsWith ?m (drop i pre)" by (simp add: startsWith_def s_def)
    then show False using assms startsWith_drop_contains [of i pre ?m] by simp
  next
    case False
    then have l: "length s < length ?m" by simp
    have "take (length ?m) (s @ ?m @ rest) ! length s = (s @ ?m @ rest) ! length s"
      using l by (intro nth_take)
    also have "\<dots> = CHR ''<''" by (simp add: nth_append)
    finally have e: "?m ! length s = CHR ''<''" using t by simp
    from l s_ne have "length s = 1 \<or> length s = 2 \<or> length s = 3 \<or> length s = 4 \<or> length s = 5
        \<or> length s = 6 \<or> length s = 7 \<or> length s = 8 \<or> length s = 9"
      by (simp; arith)
    with e show False by auto
  qed
qed

lemma textBefore_response:
  "\<not> contains ''<response>'' pre \<Longrightarrow>
   textBefore ''<response>'' (pre @ ''<response>'' @ rest) = Some pre"
  by (intro textBefore_first allI impI response_tag_no_overlap)

text \<open>
  Whatever the raw text is, once the planner's response is ok and its body decodes,
  \<^verbatim>\<open>planWithManager\<close> returns: the parsing step raises nothing.
\<close>

lemma planWithManager_parse_returns:
  assumes "truthy (activeEmail w)"
    and "scheduleStart be (length (calls w)) (orElse (activeEmail w) []) user days
           = Response status txt (Some data)"
    and "resOk status"
  shows "fst (planWithManager rt be user days w) \<noteq> Throws"
  using assms by (simp add: planWithManager_def Let_def resOk_def)

text \<open>
  Claim C4, as stated, has the analysis of a marker-free text equal to the trimmed text.
  The analysis variable starts empty and is only assigned when the \<^verbatim>\<open><response>\<close> marker
  is found: for the text \<^verbatim>\<open>Rest more.\<close> the analysis is empty.
\<close>

theorem C4_analysis_counterexample:
  "\<not> contains ''<response>'' ''Rest more.'' \<and> \<not> contains ''<payload>'' ''Rest more.''
   \<and> detailedAnalysis (parseRawText utcRuntime (Some ''Rest more.'')) \<noteq> trim ''Rest more.''"
  by (simp add: parseRawText_def extractAnalysis_def string_eval)

text \<open>
  Claim C4, amended: for every raw planning text that contains no sentinel markers, the
  response parsing returns an empty proposals list and an empty analysis.
\<close>

theorem C4_no_markers:
  assumes "\<not> contains ''<response>'' raw" and "\<not> contains ''<payload>'' raw"
  shows "parseRawText rt (Some raw) = \<lparr>allProposals = [], detailedAnalysis = []\<rparr>"
  using assms
  by (simp add: parseRawText_def extractProposals_def extractAnalysis_def
      textBefore_no_marker payloadMatch_no_marker)

theorem C4_no_markers_witness:
  "\<not> contains ''<response>'' ''Rest more.'' \<and> \<not> contains ''<payload>'' ''Rest more.''
   \<and> parseRawText utcRuntime (Some ''Rest more.'') = \<lparr>allProposals = [], detailedAnalysis = []\<rparr>"
proof -
  have a: "\<not> contains ''<response>'' ''Rest more.''" by (simp add: string_eval)
  have b: "\<not> contains ''<payload>'' ''Rest more.''" by (simp add: string_eval)
  from a b C4_no_markers [OF a b, of utcRuntime] show ?thesis by blast
qed

text \<open>
  Claim C5, as stated, has the analysis equal to the trimmed text that precedes the marker
  of the structured segment. The payload is found by its \<^verbatim>\<open><payload>\<close> tags alone, the
  analysis by the \<^verbatim>\<open><response>\<close> tag alone: in \<^verbatim>\<open>Rest more. <payload>{oops}</payload>\<close> the
  payload is found and fails to parse, and the prose before it is not kept.
\<close>

theorem C5_analysis_counterexample:
  "payloadMatch ''Rest more. <payload>{oops}</payload>'' = Some ''{oops}''
   \<and> jsonParse utcRuntime ''{oops}'' = SyntaxError
   \<and> textBefore ''<payload>'' ''Rest more. <payload>{oops}</payload>'' = Some ''Rest more. ''
   \<and> trim ''Rest more. '' = ''Rest more.''
   \<and> detailedAnalysis (parseRawText utcRuntime (Some ''Rest more. <payload>{oops}</payload>'')) = []
   \<and> detailedAnalysis (parseRawText utcRuntime (Some ''Rest more. <payload>{oops}</payload>''))
       \<noteq> trim ''Rest more. ''"
  by (simp add: parseRawText_def extractAnalysis_def payloadHere_def string_eval sample_eval)

text \<open>
  Claim C5, amended: for every raw planning text whose payload is not found by the payload
  pattern (missing or truncated) or is found and fails to parse, the response parsing
  raises nothing and returns an empty proposals list; its analysis is the trimmed text
  before the first \<^verbatim>\<open><response>\<close> marker when the text has that marker, and empty when it
  has not.
\<close>

theorem C5_unparsable_payload:
  assumes "payloadMatch raw = None \<or> (\<exists>p. payloadMatch raw = Some p \<and> jsonParse rt p = SyntaxError)"
  shows "allProposals (parseRawText rt (Some raw)) = []
     \<and> (\<forall>pre rest. raw = pre @ ''<response>'' @ rest \<and> \<not> contains ''<response>'' pre \<longrightarrow>
            detailedAnalysis (parseRawText rt (Some raw)) = trim pre)
     \<and> (\<not> contains ''<response>'' raw \<longrightarrow> detailedAnalysis (parseRawText rt (Some raw)) = [])"
proof -
  have p: "extractProposals rt raw = []"
    using assms by (auto simp: extractProposals_def)
  have a: "extractAnalysis raw = trim pre"
    if "raw = pre @ ''<response>'' @ rest" and "\<not> contains ''<response>'' pre" for pre rest
    unfolding that(1) extractAnalysis_def using textBefore_response [OF that(2)] by simp
  have n: "extractAnalysis raw = []" if "\<not> contains ''<response>'' raw"
    using that by (simp add: extractAnalysis_def textBefore_no_marker)
  have e: "raw \<noteq> []" if "raw = pre @ ''<response>'' @ rest" for pre rest
    using that by simp
  show ?thesis using p a n e by (auto simp: parseRawText_def)
qed

theorem C5_unparsable_payload_witness:
  "payloadMatch ''Rest more. <response><payload>{oops}</payload></response>'' = Some ''{oops}''
   \<and> jsonParse utcRuntime ''{oops}'' = SyntaxError
   \<and> allProposals (parseRawText utcRuntime
         (Some ''Rest more. <response><payload>{oops}</payload></response>'')) = []
   \<and> detailedAnalysis (parseRawText utcRuntime
         (Some ''Rest more. <response><payload>{oops}</payload></response>'')) = ''Rest more.''
   \<and> payloadMatch ''Rest more. <payload>{oops</payload>'' = None
   \<and> allProposals (parseRawText utcRuntime (Some ''Rest more. <payload>{oops</payload>'')) = []
   \<and> detailedAnalysis (parseRawText utcRuntime (Some ''Rest more. <payload>{oops</payload>'')) = []"
proof -
  let ?r1 = "''Rest more. <response><payload>{oops}</payload></response>''"
  let ?r2 = "''Rest more. <payload>{oops</payload>''"
  have a: "?r1 = ''Rest more. '' @ ''<response>'' @ ''<payload>{oops}</payload></response>''"
    by simp
  have b: "\<not> contains ''<response>'' ''Rest more. ''" by (simp add: string_eval)
  have c: "payloadMatch ?r1 = Some ''{oops}''" by (simp add: payloadHere_def string_eval)
  have d: "jsonParse utcRuntime ''{oops}'' = SyntaxError" by (simp add: sample_eval)
  have e: "trim ''Rest more. '' = ''Rest more.''" by (simp add: string_eval)
  have f: "payloadMatch ?r2 = None" by (simp add: payloadHere_def string_eval)
  have g: "\<not> contains ''<response>'' ?r2" by (simp add: string_eval)
  have h1: "payloadMatch ?r1 = None
              \<or> (\<exists>p. payloadMatch ?r1 = Some p \<and> jsonParse utcRuntime p = SyntaxError)"
    using c d by simp
  have h2: "payloadMatch ?r2 = None
              \<or> (\<exists>p. payloadMatch ?r2 = Some p \<and> jsonParse utcRuntime p = SyntaxError)"
    using f by simp
  from C5_unparsable_payload [OF h1] a b e
  have 1: "allProposals (parseRawText utcRuntime (Some ?r1)) = []"
    and 2: "detailedAnalysis (parseRawText utcRuntime (Some ?r1)) = ''Rest more.''"
    by metis+
  from C5_unparsable_payload [OF h2] g
  have 3: "allProposals (parseRawText utcRuntime (Some ?r2)) = []"
    and 4: "detailedAnalysis (parseRawText utcRuntime (Some ?r2)) = []"
    by blast+
  show ?thesis by (intro conjI c d 1 2 f 3 4)
qed

section \<open>Properties of the grouping\<close>

lemma groupAt_push:
  "groupAt (pushToGroup k p g) k' = (if k' = k then groupAt g k @ [p] else groupAt g k')"
  by (induction g) (auto simp: groupAt_def)

lemma keys_push:
  "map fst (pushToGroup k p g) = (if k \<in> set (map fst g) then map fst g else map fst g @ [k])"
proof (induction g)
  case Nil
  show ?case by simp
next
  case (Cons x g)
  obtain k' ps where x: "x = (k', ps)" by (cases x)
  show ?case using Cons unfolding x by (cases "k = k'") simp_all
qed

lemma distinct_push: "distinct (map fst g) \<Longrightarrow> distinct (map fst (pushToGroup k p g))"
  by (simp add: keys_push)

lemma start_labelProposal [simp]: "start (labelProposal rt p) = start p"
  by (simp add: labelProposal_def withDayLabel_def)

lemma hasDayKey_label [simp]: "hasDayKey rt k (labelProposal rt p) = hasDayKey rt k p"
  by (simp add: hasDayKey_def)

lemma dayKey_exists: "dayKeyOf rt s \<noteq> Inl RangeError \<Longrightarrow> \<exists>k. dayKeyOf rt s = Inr k"
  by (cases "dayKeyOf rt s") (auto intro: js_error.exhaust)

text \<open>A start that is not a valid date ends the grouping with the \<^verbatim>\<open>RangeError\<close>.\<close>

lemma groupLoop_invalid_start:
  "\<exists>p\<in>set ps. dayKeyOf rt (start p) = Inl RangeError \<Longrightarrow> groupLoop rt ps g = Inl RangeError"
proof (induction ps arbitrary: g)
  case Nil
  then show ?case by simp
next
  case (Cons p ps)
  show ?case
  proof (cases "dayKeyOf rt (start p)")
    case (Inl e)
    then show ?thesis by (cases e) simp
  next
    case (Inr k)
    with Cons.prems have "\<exists>q\<in>set ps. dayKeyOf rt (start q) = Inl RangeError" by auto
    then show ?thesis using Cons.IH Inr by simp
  qed
qed

text \<open>The loop, started with any groups \<open>g0\<close>: keys stay distinct, and each group grows by
  the proposals of its day, in the order of the input.\<close>

lemma groupLoop_groups:
  assumes "\<forall>p\<in>set ps. dayKeyOf rt (start p) \<noteq> Inl RangeError"
  shows "\<exists>g. groupLoop rt ps g0 = Inr g
           \<and> (distinct (map fst g0) \<longrightarrow> distinct (map fst g))
           \<and> set (map fst g) = set (map fst g0) \<union> {k. \<exists>p\<in>set ps. hasDayKey rt k p}
           \<and> (\<forall>k. groupAt g k = groupAt g0 k @ map (labelProposal rt) (filter (hasDayKey rt k) ps))"
  using assms
proof (induction ps arbitrary: g0)
  case Nil
  then show ?case by simp
next
  case (Cons p ps)
  from Cons.prems obtain key where key: "dayKeyOf rt (start p) = Inr key"
    using dayKey_exists [of rt "start p"] by auto
  let ?g1 = "pushToGroup key (labelProposal rt p) g0"
  from Cons.prems have "\<forall>q\<in>set ps. dayKeyOf rt (start q) \<noteq> Inl RangeError" by simp
  from Cons.IH [OF this, of ?g1] obtain g where
    g: "groupLoop rt ps ?g1 = Inr g"
    and d: "distinct (map fst ?g1) \<longrightarrow> distinct (map fst g)"
    and k: "set (map fst g) = set (map fst ?g1) \<union> {k. \<exists>p\<in>set ps. hasDayKey rt k p}"
    and a: "\<forall>k. groupAt g k = groupAt ?g1 k @ map (labelProposal rt) (filter (hasDayKey rt k) ps)"
    by blast
  have "groupLoop rt (p # ps) g0 = Inr g" using key g by simp
  moreover have "distinct (map fst g0) \<longrightarrow> distinct (map fst g)"
    using d distinct_push by blast
  moreover have "set (map fst g) = set (map fst g0) \<union> {k. \<exists>q\<in>set (p # ps). hasDayKey rt k q}"
    unfolding k using key by (auto simp: keys_push hasDayKey_def)
  moreover have "\<forall>k. groupAt g k
       = groupAt g0 k @ map (labelProposal rt) (filter (hasDayKey rt k) (p # ps))"
    using a key by (auto simp: groupAt_push hasDayKey_def)
  ultimately show ?case by blast
qed

lemma filter_concat_groups:
  assumes "distinct ks" and "\<And>k' q. q \<in> set (G k') \<Longrightarrow> P k q \<longleftrightarrow> k = k'"
  shows "filter (P k) (concat (map G ks)) = (if k \<in> set ks then G k else [])"
  using assms(1)
proof (induction ks)
  case Nil
  then show ?case by simp
next
  case (Cons a ks)
  have "filter (P k) (G a) = (if k = a then G a else [])"
    using assms(2) [of _ a] by (auto simp: filter_empty_conv filter_id_conv)
  with Cons show ?case by auto
qed

lemma mset_filter_disjoint:
  "(\<And>p. \<not> (A p \<and> B p)) \<Longrightarrow>
   mset (filter A ps) + mset (filter B ps) = mset (filter (\<lambda>p. A p \<or> B p) ps)"
  by (induction ps) auto

lemma mset_concat_filters:
  assumes "distinct ks" and "\<And>k k' p. P k p \<Longrightarrow> P k' p \<Longrightarrow> k = k'"
  shows "mset (concat (map (\<lambda>k. filter (P k) ps) ks))
           = mset (filter (\<lambda>p. \<exists>k\<in>set ks. P k p) ps)"
  using assms(1)
proof (induction ks)
  case Nil
  then show ?case by simp
next
  case (Cons a ks)
  have "\<And>p. \<not> (P a p \<and> (\<exists>k\<in>set ks. P k p))"
    using Cons.prems assms(2) by auto
  from mset_filter_disjoint [of "P a" "\<lambda>p. \<exists>k\<in>set ks. P k p" ps, OF this]
  show ?case using Cons by simp
qed

text \<open>
  The grouping is a partition by the day key that the code computes. For every list of
  proposals whose start timestamps are valid dates, in every runtime, the groups have
  distinct keys; the group under a key \<open>k\<close> is exactly the list of the proposals whose start
  has day key \<open>k\<close>, in their input order; the sorted keys are the day keys of the input; the
  groups flattened in that order are a permutation of the labelled input; and restricted to
  any one day the flattened list is the input restricted to that day, in the same order.
  What the day key of a start is, is not part of this lemma.
\<close>

lemma groupProposalsByDay_partition:
  assumes "\<forall>p\<in>set ps. dayKeyOf rt (start p) \<noteq> Inl RangeError"
  shows "\<exists>g. groupProposalsByDay rt ps = Inr g
     \<and> distinct (map fst g)
     \<and> (\<forall>k. groupAt g k = map (labelProposal rt) (filter (hasDayKey rt k) ps))
     \<and> sorted (sortedDayKeys g) \<and> distinct (sortedDayKeys g)
     \<and> set (sortedDayKeys g) = {k. \<exists>p\<in>set ps. hasDayKey rt k p}
     \<and> mset (concat (map (groupAt g) (sortedDayKeys g))) = mset (map (labelProposal rt) ps)
     \<and> (\<forall>k. filter (hasDayKey rt k) (concat (map (groupAt g) (sortedDayKeys g)))
              = map (labelProposal rt) (filter (hasDayKey rt k) ps))"
proof -
  from groupLoop_groups [OF assms, of "[]"] obtain g where
    g: "groupProposalsByDay rt ps = Inr g"
    and d: "distinct (map fst g)"
    and k: "set (map fst g) = {k. \<exists>p\<in>set ps. hasDayKey rt k p}"
    and a: "\<forall>k. groupAt g k = map (labelProposal rt) (filter (hasDayKey rt k) ps)"
    by (auto simp: groupProposalsByDay_def groupAt_def)
  let ?ks = "sortedDayKeys g"
  have ds: "distinct ?ks" and ss: "sorted ?ks" and ks: "set ?ks = {k. \<exists>p\<in>set ps. hasDayKey rt k p}"
    using d k by (simp_all add: sortedDayKeys_def)
  have one: "\<And>k k' p. hasDayKey rt k p \<Longrightarrow> hasDayKey rt k' p \<Longrightarrow> k = k'"
    by (simp add: hasDayKey_def)
  have "\<exists>k. hasDayKey rt k p" if "p \<in> set ps" for p
    using that assms dayKey_exists [of rt "start p"] by (auto simp: hasDayKey_def)
  then have all: "filter (\<lambda>p. \<exists>k\<in>set ?ks. hasDayKey rt k p) ps = ps"
    unfolding ks filter_id_conv by blast
  have ga: "groupAt g = (\<lambda>k. map (labelProposal rt) (filter (hasDayKey rt k) ps))"
    using a by auto
  have "concat (map (groupAt g) ?ks)
          = map (labelProposal rt) (concat (map (\<lambda>k. filter (hasDayKey rt k) ps) ?ks))"
    unfolding ga by (simp add: map_concat comp_def)
  moreover have "mset (concat (map (\<lambda>k. filter (hasDayKey rt k) ps) ?ks))
                   = mset (filter (\<lambda>p. \<exists>k\<in>set ?ks. hasDayKey rt k p) ps)"
    by (rule mset_concat_filters [OF ds]) (rule one)
  ultimately have part: "mset (concat (map (groupAt g) ?ks)) = mset (map (labelProposal rt) ps)"
    using all by simp
  have ord: "filter (hasDayKey rt k) (concat (map (groupAt g) ?ks))
               = map (labelProposal rt) (filter (hasDayKey rt k) ps)" for k
  proof -
    have "filter (hasDayKey rt k) (concat (map (groupAt g) ?ks))
            = (if k \<in> set ?ks then groupAt g k else [])"
    proof (rule filter_concat_groups [OF ds])
      fix k' q assume "q \<in> set (groupAt g k')"
      then have "hasDayKey rt k' q" using a by auto
      then show "hasDayKey rt k q \<longleftrightarrow> k = k'" using one by blast
    qed
    moreover have "k \<notin> set ?ks \<Longrightarrow> filter (hasDayKey rt k) ps = []"
      unfolding ks by (auto simp: filter_empty_conv)
    ultimately show ?thesis using a by auto
  qed
  from g d a ss ds ks part ord show ?thesis by blast
qed

text \<open>
  Claim C6 at the failing input: the two proposals of the examples grouped in a browser in
  Japan (local time nine hours ahead of UTC). The claim has every proposal in the group
  keyed by the calendar date of its start. The group keyed \<^verbatim>\<open>2024-01-02\<close> holds the
  meditation, whose start is written \<^verbatim>\<open>2024-01-03T08:00\<close> and which the same loop labels
  Wednesday, Jan 3: the key is the UTC date of \<^verbatim>\<open>toISOString()\<close>, the label the local date.
\<close>

theorem C6_group_key_in_tokyo:
  "map_sum id (map (\<lambda>(k, ps). (k, map (\<lambda>p. (summary p, start p, dayLabel p)) ps)))
     (groupProposalsByDay tokyoRuntime [walk, meditate])
   = Inr [(''2024-01-02'',
           [(''Walk'', ''2024-01-02T09:00'', ''Tuesday, Jan 2''),
            (''Meditate'', ''2024-01-03T08:00'', ''Wednesday, Jan 3'')])]"
  by (simp add: groupProposalsByDay_def labelProposal_def withDayLabel_def date_eval sample_eval)

section \<open>Starting the review\<close>

lemma utc_groups:
  "groupProposalsByDay utcRuntime [walk, meditate]
     = Inr [(''2024-01-02'', [labelProposal utcRuntime walk]),
            (''2024-01-03'', [labelProposal utcRuntime meditate])]"
  by (simp add: groupProposalsByDay_def date_eval sample_eval labelProposal_def)

lemma reviewState_eval:
  "reviewState = connectedState
     \<lparr>groupedProposals := [(''2024-01-02'', [labelProposal utcRuntime walk]),
                            (''2024-01-03'', [labelProposal utcRuntime meditate])],
      currentDayIndex := 0, currentSessionId := Some ''s1'',
      currentDayProposals := [labelProposal utcRuntime walk], awaitingDayConsent := True,
      messages := messages connectedState
         @ [createMessage (dayPrompt utcRuntime [labelProposal utcRuntime walk])]\<rparr>"
  by (simp add: reviewState_def startDayByDayApproval_def utc_groups sortedDayKeys_def groupAt_def
      say_def Let_def)

text \<open>
  In a browser whose local time is UTC the review of the two proposals of claim C9 starts
  as the claim says: two day keys, and a first prompt that lists only the walk.
\<close>

lemma review_in_utc:
  "map_option (\<lambda>w. (sortedDayKeys (groupedProposals w), map summary (currentDayProposals w),
                      message (last (messages w)), awaitingDayConsent w))
     (startDayByDayApproval utcRuntime [walk, meditate] (Some ''s1'') connectedState)
   = Some ([''2024-01-02'', ''2024-01-03''], [''Walk''],
           ''**Tuesday, Jan 2:**'' @ [newline] @ ''- Walk (09:00 AM-09:30 AM)'' @ [newline, newline]
             @ ''Approve activities for this day? (yes/no)'', True)"
  by (simp add: review_eval date_eval sample_eval)

text \<open>
  Claim C9 at the failing input: the same two proposals in a browser in Japan (local time
  nine hours ahead of UTC). \<^verbatim>\<open>new Date("2024-01-03T08:00")\<close> is 08:00 local time, which is
  23:00 of 2 January in UTC, and \<^verbatim>\<open>toISOString()\<close> prints the UTC date. Both proposals get
  the day key \<^verbatim>\<open>2024-01-02\<close>; there is one group, and the first prompt, headed by the label
  of the walk, lists the walk and the meditation.
\<close>

theorem C9_review_in_tokyo:
  "map_option (\<lambda>w. (sortedDayKeys (groupedProposals w), map summary (currentDayProposals w),
                      message (last (messages w)), awaitingDayConsent w))
     (startDayByDayApproval tokyoRuntime [walk, meditate] (Some ''s1'') connectedState)
   = Some ([''2024-01-02''], [''Walk'', ''Meditate''],
           ''**Tuesday, Jan 2:**'' @ [newline] @ ''- Walk (09:00 AM-09:30 AM)'' @ [newline]
             @ ''- Meditate (08:00 AM-08:15 AM)'' @ [newline, newline]
             @ ''Approve activities for this day? (yes/no)'', True)"
  by (simp add: review_eval date_eval sample_eval)

section \<open>The chat handler during a day review\<close>

text \<open>
  Claim C1. The chat message is the trimmed input, which the handler appends to the chat
  (an input of white space only is dropped before it becomes a message). While the
  per-day decision is awaited, a message whose lower-cased text is in neither whitelist
  leaves the state as it was but for the chat, which gains the user's message and the
  re-prompt, and the input box, which is cleared: no consent or session variable changes,
  the trace of backend calls and the timers are the same, and the promise is fulfilled.
  This holds whether or not the message has a scheduling keyword.
\<close>

theorem C1_invalid_day_reply:
  assumes "awaitingDayConsent w"
    and "trim (inputMessage w) \<noteq> []"
    and "toLowerCase (trim (inputMessage w)) \<notin> {''y'', ''yes'', ''approve'', ''ok'', ''okay'', ''sure''}"
    and "toLowerCase (trim (inputMessage w)) \<notin> {''n'', ''no'', ''cancel'', ''skip''}"
  shows "handleSendMessage rt be user w =
     Fulfilled (w\<lparr>messages := messages w @
                    [\<lparr>sender = User, message = trim (inputMessage w)\<rparr>,
                     \<lparr>sender = Buddy,
                      message = ''Please reply with **yes** or **no** for this day's activities.''\<rparr>],
                  inputMessage := []\<rparr>)"
  using assms
  by (simp add: handleSendMessage_def dayConsentBranch_def Let_def say_def createMessage_def
      isAffirmative_def isNegative_def affirmativeReplies_def negativeReplies_def)

text \<open>An input of white space only changes nothing and sends nothing.\<close>

lemma handleSendMessage_blank:
  "trim (inputMessage w) = [] \<Longrightarrow> handleSendMessage rt be user w = Fulfilled w"
  by (simp add: handleSendMessage_def)

theorem C1_invalid_day_reply_witness:
  "wantsSchedulingIntent ''please schedule more''
   \<and> handleSendMessage utcRuntime flakyBackend ''Ann''
        (reviewState\<lparr>inputMessage := ''please schedule more''\<rparr>)
      = Fulfilled (reviewState\<lparr>messages := messages reviewState @
                     [\<lparr>sender = User, message = ''please schedule more''\<rparr>,
                      \<lparr>sender = Buddy,
                       message = ''Please reply with **yes** or **no** for this day's activities.''\<rparr>],
                   inputMessage := []\<rparr>)"
proof -
  let ?w = "reviewState\<lparr>inputMessage := ''please schedule more''\<rparr>"
  have t0: "trim ''please schedule more'' = ''please schedule more''" by (simp add: string_eval)
  then have t: "trim (inputMessage ?w) = ''please schedule more''" by simp
  have l: "toLowerCase ''please schedule more'' = ''please schedule more''"
    by (simp add: string_eval)
  have a: "awaitingDayConsent ?w" by (simp add: reviewState_eval)
  have b: "trim (inputMessage ?w) \<noteq> []" unfolding t by simp
  have c: "toLowerCase (trim (inputMessage ?w))
             \<notin> {''y'', ''yes'', ''approve'', ''ok'', ''okay'', ''sure''}"
    unfolding t l by simp
  have d: "toLowerCase (trim (inputMessage ?w)) \<notin> {''n'', ''no'', ''cancel'', ''skip''}"
    unfolding t l by simp
  have k: "wantsSchedulingIntent ''please schedule more''"
    by (simp add: wantsSchedulingIntent_def schedulingKeywords_def keywordHere_def
        isWordBoundary_def charAt_def isWordChar_def foldAscii_def)
  from C1_invalid_day_reply [OF a b c d, of utcRuntime flakyBackend "''Ann''"] k
  show ?thesis by (simp add: t0)
qed

section \<open>Resetting during a day review\<close>

lemma resetConversation_frame:
  "awaitingDayConsent (resetConversation user w) = awaitingDayConsent w
   \<and> groupedProposals (resetConversation user w) = groupedProposals w
   \<and> currentDayProposals (resetConversation user w) = currentDayProposals w
   \<and> currentDayIndex (resetConversation user w) = currentDayIndex w
   \<and> currentSessionId (resetConversation user w) = currentSessionId w
   \<and> calls (resetConversation user w) = calls w"
  by (simp add: resetConversation_def)

text \<open>
  Claim C8 at the failing input: the reset button pressed in \<open>reviewState\<close>, a review that
  awaits the decision on its first day. The four writes of the handler clear the chat, the
  input box and the legacy consent; the day groups, the current day and its index, the
  session id and the awaiting-day-consent flag are as before. No backend call is made.
\<close>

theorem C8_reset_during_review:
  "awaitingDayConsent (resetConversation ''Ann'' reviewState)
   \<and> map fst (groupedProposals (resetConversation ''Ann'' reviewState))
       = [''2024-01-02'', ''2024-01-03'']
   \<and> map summary (currentDayProposals (resetConversation ''Ann'' reviewState)) = [''Walk'']
   \<and> currentDayIndex (resetConversation ''Ann'' reviewState) = 0
   \<and> currentSessionId (resetConversation ''Ann'' reviewState) = Some ''s1''
   \<and> calls (resetConversation ''Ann'' reviewState) = calls reviewState
   \<and> messages (resetConversation ''Ann'' reviewState) = [greeting ''Ann'']"
  by (simp add: resetConversation_def reviewState_eval labelProposal_def withDayLabel_def
      sample_eval)

section \<open>Approving a day\<close>

lemma count_upt_Suc:
  "length (filter P [0..<Suc n]) = (if P 0 then 1 else 0) + length (filter (\<lambda>i. P (Suc i)) [0..<n])"
proof -
  have "[0..<Suc n] = 0 # map Suc [0..<n]"
    by (simp add: upt_conv_Cons map_Suc_upt del: upt_Suc)
  then show ?thesis by (simp add: filter_map comp_def del: upt_Suc)
qed

text \<open>
  The accept loop from any count and state: one call per proposal, whatever the replies,
  and one more in the count for each call, by position, that was scheduled.
\<close>

lemma acceptLoop_spec:
  "acceptLoop be sid ps (c, w) =
     (c + length (filter (\<lambda>i. decisionScheduled (scheduleDecision be (length (calls w) + i) sid True))
                    [0..<length ps]),
      w\<lparr>calls := calls w @ replicate (length ps) (ScheduleDecision sid True)\<rparr>)"
proof (induction ps arbitrary: c w)
  case Nil
  show ?case by simp
next
  case (Cons p ps)
  show ?case
    by (simp add: Cons.IH request_def count_upt_Suc replicate_append_same del: upt_Suc)
qed

text \<open>A call counts exactly when its response is ok and carries the status "scheduled".\<close>

lemma decisionScheduled_iff:
  "decisionScheduled r \<longleftrightarrow>
     (\<exists>status txt result. r = Response status txt (Some result) \<and> 200 \<le> status \<and> status \<le> 299
        \<and> result_status result = Some ''scheduled'')"
  by (auto simp: decisionScheduled_def resOk_def split: reply.splits option.splits)

text \<open>
  Claim C2. On the accept path (approval of a day that has proposals), whatever the
  backend replies, the trace grows by exactly one accepting decision call per proposal of
  the day, with the session id of the review; the reply to the \<open>i\<close>-th of them is the
  backend's reply at that position of the trace, so the calls are sequential; and the
  summary that follows in the chat reports the number \<open>k\<close> of those calls whose fetch
  resolved to a response with a status from 200 to 299 and a body that decodes and has
  \<^verbatim>\<open>result.status\<close> equal to \<^verbatim>\<open>"scheduled"\<close>. A rejected fetch, a response that is not
  ok, an undecodable body and any other status do not count and stop nothing.
\<close>

theorem C2_day_approval_counts:
  assumes "currentDayProposals w \<noteq> []"
  shows "let ps = currentDayProposals w;
             sid = currentSessionId w;
             w' = handleDayApproval rt be True w;
             k = length (filter
                   (\<lambda>i. \<exists>status txt result.
                          scheduleDecision be (length (calls w) + i) sid True
                            = Response status txt (Some result)
                          \<and> 200 \<le> status \<and> status \<le> 299
                          \<and> result_status result = Some ''scheduled'')
                   [0..<length ps])
         in calls w' = calls w @ replicate (length ps) (ScheduleDecision sid True)
            \<and> messages w' =
                messages w
                  @ [createMessage (''Added '' @ showNat k @ '' activities for '' @ dayLabel (hd ps)
                                      @ '' '' @ CHECK_MARK)]
                  @ (if currentDayIndex w + 1 < length (sortedDayKeys (groupedProposals w)) then []
                     else [createMessage
                             ''Finished reviewing all days! Let me know if you need anything else.''])"
proof -
  obtain p ps' where ps: "currentDayProposals w = p # ps'"
    using assms by (cases "currentDayProposals w") auto
  show ?thesis
    unfolding decisionScheduled_iff [symmetric]
    by (simp add: handleDayApproval_def acceptLoop_spec advanceDay_def say_def Let_def
        addedSummary_def firstDayLabel_def ps del: upt_Suc)
qed

lemma busyDayState_eval:
  "busyDayState = connectedState
     \<lparr>groupedProposals := [(''2024-01-02'', map (labelProposal utcRuntime) [walk, stretch, nap]),
                            (''2024-01-03'', [labelProposal utcRuntime meditate])],
      currentDayIndex := 0, currentSessionId := Some ''s1'',
      currentDayProposals := map (labelProposal utcRuntime) [walk, stretch, nap],
      awaitingDayConsent := True,
      messages := messages connectedState
         @ [createMessage (dayPrompt utcRuntime (map (labelProposal utcRuntime) [walk, stretch, nap]))]\<rparr>"
proof -
  have "groupProposalsByDay utcRuntime [walk, stretch, nap, meditate]
     = Inr [(''2024-01-02'', map (labelProposal utcRuntime) [walk, stretch, nap]),
            (''2024-01-03'', [labelProposal utcRuntime meditate])]"
    by (simp add: groupProposalsByDay_def date_eval sample_eval labelProposal_def)
  then show ?thesis
    by (simp add: busyDayState_def startDayByDayApproval_def sortedDayKeys_def groupAt_def
        say_def Let_def)
qed

text \<open>
  Three proposals. With the second decision call failing: three calls, and a count of 2.
  With a 500 response, an undecodable body and the status "rejected": three calls, and a
  count of 0.
\<close>

theorem C2_day_approval_counts_witness:
  "currentDayProposals busyDayState \<noteq> []
   \<and> calls (handleDayApproval utcRuntime flakyBackend True busyDayState)
       = [ScheduleDecision (Some ''s1'') True, ScheduleDecision (Some ''s1'') True,
          ScheduleDecision (Some ''s1'') True]
   \<and> message (messages (handleDayApproval utcRuntime flakyBackend True busyDayState)
                ! length (messages busyDayState))
       = ''Added 2 activities for Tuesday, Jan 2 '' @ CHECK_MARK
   \<and> calls (handleDayApproval utcRuntime refusingBackend True busyDayState)
       = [ScheduleDecision (Some ''s1'') True, ScheduleDecision (Some ''s1'') True,
          ScheduleDecision (Some ''s1'') True]
   \<and> message (messages (handleDayApproval utcRuntime refusingBackend True busyDayState)
                ! length (messages busyDayState))
       = ''Added 0 activities for Tuesday, Jan 2 '' @ CHECK_MARK"
proof -
  have h: "currentDayProposals busyDayState \<noteq> []" by (simp add: busyDayState_eval)
  have c: "calls busyDayState = []" and s: "currentSessionId busyDayState = Some ''s1''"
    and n: "length (currentDayProposals busyDayState) = 3"
    and l: "dayLabel (hd (currentDayProposals busyDayState)) = ''Tuesday, Jan 2''"
    by (simp_all add: busyDayState_eval connectedState_def initialState_def labelProposal_def
        withDayLabel_def sample_eval)
  have k: "length (filter (\<lambda>i. decisionScheduled (scheduleDecision flakyBackend i (Some ''s1'') True))
                     [0..<3]) = 2"
    by (simp add: flakyBackend_def decisionScheduled_def scheduledReply_def resOk_def upt_rec)
  have k': "length (filter (\<lambda>i. decisionScheduled (scheduleDecision refusingBackend i (Some ''s1'') True))
                      [0..<3]) = 0"
    by (simp add: refusingBackend_def decisionScheduled_def rejectedReply_def resOk_def upt_rec)
  have d: "showNat 2 = ''2''" "showNat 0 = ''0''" by (simp_all add: showNat.simps)
  have r: "replicate 3 x = [x, x, x]" for x :: api_call by (simp add: numeral_3_eq_3)
  note flaky = C2_day_approval_counts [OF h, of utcRuntime flakyBackend,
      unfolded decisionScheduled_iff [symmetric]]
  note refusing = C2_day_approval_counts [OF h, of utcRuntime refusingBackend,
      unfolded decisionScheduled_iff [symmetric]]
  from flaky refusing h show ?thesis
    by (simp add: Let_def c s n l k k' d r createMessage_def nth_append)
qed

section \<open>Check-ins after the initial assessment\<close>

lemma view_say [simp]: "checkinView (say m w) = checkinView w"
  by (simp add: checkinView_def questionFetches_def say_def)

lemma view_request:
  "c \<noteq> CheckinNext \<Longrightarrow> checkinView (request c w) = checkinView w"
  by (simp add: checkinView_def questionFetches_def request_def)

lemma plan_state:
  "snd (planWithManager rt be user days w) = w
   \<or> snd (planWithManager rt be user days w)
        = request (ScheduleStart (orElse (activeEmail w) []) user days) w"
  by (simp add: planWithManager_def Let_def split: reply.splits option.splits)

lemma view_plan [simp]: "checkinView (snd (planWithManager rt be user days w)) = checkinView w"
  using plan_state [of rt be user days w] by (auto simp: view_request)

lemma view_start:
  "startDayByDayApproval rt ps sid w = Some w' \<Longrightarrow> checkinView w' = checkinView w"
  by (auto simp: startDayByDayApproval_def checkinView_def questionFetches_def say_def Let_def
      split: sum.splits list.splits)


text \<open>
  Finishing a check-in closes the modal and disables the questions; the planning and the
  start of a review that may follow touch neither these nor the cooldown, the timers and
  the number of question fetches.
\<close>

lemma view_finish:
  "checkinView (finishCheckin rt be user w0 w)
     = (False, False, cooldownUntil w, timers w, questionFetches w)"
proof -
  let ?w1 = "say ''Thanks for completing your check-in.''
               (w\<lparr>needsInitialQuestions := False, isQuestionnaireOpen := False,
                  questionsAvailable := False, questionnaireInProgress := False\<rparr>)"
  have v1: "checkinView ?w1 = (False, False, cooldownUntil w, timers w, questionFetches w)"
    by (simp add: checkinView_def questionFetches_def say_def)
  obtain r w2 where p: "planWithManager rt be user 3 ?w1 = (r, w2)"
    by (cases "planWithManager rt be user 3 ?w1")
  have v2: "checkinView w2 = checkinView ?w1"
    using view_plan [of rt be user 3 ?w1] p by simp
  have f: "finishCheckin rt be user w0 w =
     (if \<not> truthy (activeEmail w0)
      then say (''To suggest restorative activities, please connect your Google Calendar ''
                     @ ''(middle panel).'') ?w1
      else (case r of
              Throws \<Rightarrow> answerNotRecorded w2
            | Returns (PlanSuccess proposals sessionId analysis) \<Rightarrow>
                if proposals \<noteq> []
                then
                  let w3 = (if analysis \<noteq> [] then say analysis w2 else w2)
                  in (case startDayByDayApproval rt proposals sessionId w3 of
                        None \<Rightarrow> answerNotRecorded w3
                      | Some w4 \<Rightarrow> w4)
                else w2
            | Returns (PlanFailure m) \<Rightarrow> say m w2))"
    unfolding finishCheckin_def Let_def p by simp
  show ?thesis
  proof (cases "truthy (activeEmail w0)")
    case False
    then show ?thesis unfolding f using v1 by simp
  next
    case True
    show ?thesis
    proof (cases r)
      case Throws
      then show ?thesis unfolding f using True v1 v2 by (simp add: answerNotRecorded_def)
    next
      case (Returns res)
      show ?thesis
      proof (cases res)
        case (PlanFailure m)
        then show ?thesis unfolding f using True v1 v2 Returns by simp
      next
        case (PlanSuccess proposals sessionId analysis)
        let ?w3 = "if analysis \<noteq> [] then say analysis w2 else w2"
        have v3: "checkinView ?w3 = checkinView w2" by simp
        show ?thesis
        proof (cases "proposals = []")
          case True
          then show ?thesis unfolding f using \<open>truthy (activeEmail w0)\<close> v1 v2 Returns PlanSuccess
            by simp
        next
          case False
          show ?thesis
          proof (cases "startDayByDayApproval rt proposals sessionId ?w3")
            case None
            then show ?thesis unfolding f using True False v1 v2 v3 Returns PlanSuccess
              by (simp add: answerNotRecorded_def Let_def)
          next
            case (Some w4)
            from view_start [OF Some] have "checkinView w4 = checkinView ?w3" .
            then show ?thesis unfolding f using True False v1 v2 v3 Returns PlanSuccess Some
              by (simp add: Let_def)
          qed
        qed
      qed
    qed
  qed
qed


text \<open>
  Claim C10. In a state where the initial assessment is complete, the button is enabled and
  the modal is closed, opening the questionnaire fetches one question; when the answer to
  it is recorded (the response is ok and decodes), the modal is closed, the questions are
  unavailable, no further question has been fetched, whatever the planning that follows
  does, and a positive \<^verbatim>\<open>next_interval_min\<close> of the response has set the cooldown and
  started the timer that ends it.
\<close>

theorem C10_single_question:
  assumes "\<not> needsInitialQuestions w" and "questionsAvailable w" and "\<not> isQuestionnaireOpen w"
    and "checkinNext be (length (calls w)) = Response st1 t1 (Some q)" and "resOk st1"
    and "checkinAnswer be (length (calls w) + 1) (qid q) v = Response st2 t2 (Some answer)"
    and "resOk st2"
  shows "let w1 = openQuestionnaire be w; w2 = submitAnswer rt be user v w1
         in isQuestionnaireOpen w1 \<and> currentQ w1 = Some q
            \<and> \<not> isQuestionnaireOpen w2 \<and> \<not> questionsAvailable w2
            \<and> questionFetches w2 = questionFetches w + 1
            \<and> (\<forall>m. next_interval_min answer = Some m \<and> 0 < m \<longrightarrow>
                   cooldownUntil w2 = Some (dateNow rt + m * 60000)
                   \<and> timers w2 = timers w @ [(m * 60000, EnableQuestions)])"
proof -
  define w1 where "w1 = w\<lparr>isQuestionnaireOpen := True, initialCount := 0,
                          questionnaireInProgress := True,
                          calls := calls w @ [CheckinNext], currentQ := Some q\<rparr>"
  have o: "openQuestionnaire be w = w1"
    using assms(2-5)
    by (simp add: w1_def openQuestionnaire_def loadNextQuestion_def request_def Let_def)
  define wb where "wb = (case bs answer of
                           None \<Rightarrow> request (CheckinAnswer (qid q) v) w1
                         | Some b \<Rightarrow> (request (CheckinAnswer (qid q) v) w1)\<lparr>burnoutScore := Some b\<rparr>)"
  define mins where "mins = (case next_interval_min answer of None \<Rightarrow> 0 | Some m \<Rightarrow> m)"
  define wa where "wa = (if mins > 0
                         then wb\<lparr>cooldownUntil := Some (dateNow rt + mins * 60000),
                                 questionsAvailable := False,
                                 timers := timers wb @ [(mins * 60000, EnableQuestions)]\<rparr>
                         else wb)"
  have len: "length (calls w1) = length (calls w) + 1" by (simp add: w1_def)
  have a: "answerQuestion rt be (qid q) v w1 = (Returns answer, wa)"
    using assms(6,7) unfolding answerQuestion_def len
    by (simp add: Let_def wa_def wb_def mins_def)
  have tb: "timers wb = timers w" and qb: "questionFetches wb = questionFetches w + 1"
    by (simp_all add: wb_def w1_def request_def questionFetches_def split: option.splits)
  have ta: "timers wa = (if mins > 0 then timers w @ [(mins * 60000, EnableQuestions)] else timers w)"
    and ca: "mins > 0 \<Longrightarrow> cooldownUntil wa = Some (dateNow rt + mins * 60000)"
    and qa: "questionFetches wa = questionFetches w + 1"
    using tb qb by (simp_all add: wa_def questionFetches_def)
  let ?w2 = "wa\<lparr>initialCount := initialCount wa + 1\<rparr>"
  have n1: "\<not> needsInitialQuestions w1" and q1: "currentQ w1 = Some q"
    and i1: "isQuestionnaireOpen w1"
    using assms(1) by (simp_all add: w1_def)
  have s: "submitAnswer rt be user v w1 = finishCheckin rt be user w1 ?w2"
    using n1 by (simp add: submitAnswer_def q1 a Let_def)
  have "checkinView (submitAnswer rt be user v w1)
          = (False, False, cooldownUntil ?w2, timers ?w2, questionFetches ?w2)"
    unfolding s by (rule view_finish)
  then have v: "checkinView (submitAnswer rt be user v w1)
          = (False, False, cooldownUntil wa, timers wa, questionFetches w + 1)"
    using qa by (simp add: questionFetches_def)
  have m: "next_interval_min answer = Some m \<Longrightarrow> mins = m" for m
    by (simp add: mins_def)
  show ?thesis
    unfolding o Let_def using v i1 q1 ta ca m
    by (auto simp: checkinView_def)
qed


theorem C10_single_question_witness:
  "\<not> needsInitialQuestions assessedState \<and> questionsAvailable assessedState
   \<and> \<not> isQuestionnaireOpen assessedState
   \<and> (let w2 = submitAnswer utcRuntime checkinBackend ''Ann'' 3
                   (openQuestionnaire checkinBackend assessedState)
        in \<not> isQuestionnaireOpen w2 \<and> \<not> questionsAvailable w2 \<and> questionFetches w2 = 1
           \<and> cooldownUntil w2 = Some 1704191400000
           \<and> timers w2 = [(5400000, EnableQuestions)])"
proof -
  let ?q = "\<lparr>qid = ''q7'', q_text = ''How drained do you feel?''\<rparr>"
  let ?a = "\<lparr>bs = Some 62, next_interval_min = Some 90\<rparr>"
  have h1: "\<not> needsInitialQuestions assessedState" and h2: "questionsAvailable assessedState"
    and h3: "\<not> isQuestionnaireOpen assessedState"
    by (simp_all add: assessedState_def initialState_def)
  have h4: "checkinNext checkinBackend (length (calls assessedState)) = Response 200 [] (Some ?q)"
    by (simp add: checkinBackend_def)
  have h5: "resOk 200" by (simp add: resOk_def)
  have h6: "checkinAnswer checkinBackend (length (calls assessedState) + 1) (qid ?q) 3
              = Response 200 [] (Some ?a)"
    by (simp add: checkinBackend_def)
  have z: "questionFetches assessedState = 0" "timers assessedState = []"
    "dateNow utcRuntime = 1704186000000"
    by (simp_all add: questionFetches_def assessedState_def initialState_def utcRuntime_def)
  from C10_single_question [OF h1 h2 h3 h4 h5 h6 h5, of utcRuntime "''Ann''"] h1 h2 h3
  show ?thesis by (simp add: Let_def z)
qed

end
